theory Spec2Isabelle
  imports Complex_Main "HOL-Library.Multiset"
begin

section \<open>JavaScript values and library functions used by the sources\<close>

text \<open>\<open>x || 0\<close> on an optional number: \<open>undefined\<close> becomes 0, and 0 stays 0.\<close>

definition or0 :: "int option \<Rightarrow> int" where
  "or0 x = (case x of None \<Rightarrow> 0 | Some v \<Rightarrow> v)"

text \<open>
  \<open>Array.prototype.sort(cmp)\<close> is a stable sort: an element moves in front of another
  only when the comparator puts it strictly first. It is modelled as an insertion sort
  that inserts from the right, so that an element stays in front of the later elements
  it ties with.
\<close>

fun insort_cmp :: "('a \<Rightarrow> 'a \<Rightarrow> int) \<Rightarrow> 'a \<Rightarrow> 'a list \<Rightarrow> 'a list" where
  "insort_cmp cmp x [] = [x]"
| "insort_cmp cmp x (y # ys) =
     (if cmp x y \<le> 0 then x # y # ys else y # insort_cmp cmp x ys)"

definition js_sort :: "('a \<Rightarrow> 'a \<Rightarrow> int) \<Rightarrow> 'a list \<Rightarrow> 'a list" where
  "js_sort cmp xs = foldr (insort_cmp cmp) xs []"

text \<open>\<open>arrayUnion(x)\<close> of the store: the element is added unless an equal one is there.\<close>

definition arrayUnion :: "'a \<Rightarrow> 'a list option \<Rightarrow> 'a list" where
  "arrayUnion x field =
     (case field of None \<Rightarrow> [x] | Some xs \<Rightarrow> if x \<in> set xs then xs else xs @ [x])"

text \<open>\<open>increment(n)\<close> of the store: a missing field counts as 0.\<close>

definition increment :: "int \<Rightarrow> int option \<Rightarrow> int" where
  "increment n field = or0 field + n"

section \<open>The types module\<close>

datatype Role = aluno | professor | admin

record User =
  user_id :: string
  user_name :: string
  user_email :: string
  user_role :: "Role option"
  user_series :: "string option"
  user_avatarUrl :: "string option"

datatype BadgeTier = bronze | silver | gold

datatype AchievementStatus = Ativa | Inativa

text \<open>
  Optional fields are options. The criterion type is kept as a string because the engine
  has a \<open>default\<close> branch for values outside the declared union. Counters and targets
  are JavaScript numbers that hold counts; they are integers here.
\<close>

record Achievement =
  ach_id :: string
  ach_title :: string
  ach_description :: string
  ach_date :: string
  ach_points :: int
  ach_unlocked :: bool
  ach_tier :: BadgeTier
  criterionType :: "string option"
  criterionCount :: "int option"
  ach_status :: "AchievementStatus option"

record UserGamificationStats =
  quizzesCompleted :: "int option"
  modulesCompleted :: "int option"
  activitiesCompleted :: "int option"
  loginStreak :: "int option"

text \<open>
  An entry of \<open>UserAchievementsDoc.unlocked\<close>: an object with the unlock date and the
  seen flag. A JavaScript object is truthy, so an own entry of the map is always truthy.
\<close>

record UnlockEntry =
  unlock_date :: string
  unlock_seen :: bool

type_synonym UnlockedMap = "string \<rightharpoonup> UnlockEntry"

datatype Urgency = low | medium | high

text \<open>
  A notification. Both listeners store \<open>timestamp\<close> as the result of \<open>toISOString()\<close>,
  so \<open>new Date(timestamp).getTime()\<close> is always a number of milliseconds; the field
  holds that number. \<open>deepLink\<close> and \<open>groupCount\<close> play no part in the merge.
\<close>

record Notification =
  n_id :: string
  n_title :: string
  n_summary :: string
  n_urgency :: Urgency
  n_read :: bool
  n_timestamp :: int
  n_userId :: "string option"

record UserStats =
  xp :: int
  level :: int
  xpForNextLevel :: int
  levelName :: string

record Quiz =
  quiz_id :: string
  quiz_title :: string
  quiz_attempts :: "int option"

record Module =
  m_id :: string
  m_title :: string
  m_status :: "string option"
  m_visibility :: "string option"
  m_classIds :: "string list option"
  m_progress :: "int option"

datatype SubmissionStatus = Aguardando_correcao | Corrigido

text \<open>
  Grades are JavaScript numbers that may carry a fraction (the grading form parses
  \<open>7,5\<close>); they are exact rationals here, and \<open>typeof grade === 'number'\<close> is
  \<open>grade \<noteq> None\<close>.
\<close>

record ActivitySubmission =
  studentId :: string
  studentName :: string
  sub_content :: string
  sub_status :: SubmissionStatus
  grade :: "rat option"

text \<open>\<open>createdAt\<close> is the creation time in milliseconds, the key the feed is ordered by.\<close>

record Activity =
  act_id :: string
  act_title :: string
  classId :: string
  className :: "string option"
  unidade :: "string option"
  points :: rat
  isVisible :: bool
  createdAt :: int
  submissions :: "ActivitySubmission list option"

record StudentRef =
  sr_id :: string
  sr_name :: string
  sr_avatarUrl :: "string option"

text \<open>An element of the legacy \<open>students\<close> array of a class: an id or an object.\<close>

datatype StudentEntry = EntryId string | EntryObj StudentRef

record TeacherClass =
  class_id :: string
  class_name :: string
  class_code :: string
  teacherId :: string
  studentIds :: "string list option"
  students :: "StudentEntry list option"
  studentCount :: "int option"





text \<open>
  The notices shown by \<open>addToast\<close>. The message texts are Portuguese sentences; each
  constructor stands for one of them.
\<close>

datatype ToastLevel = toast_success | toast_error | toast_info

datatype ToastMsg =
    MsgXpEarned int
  | MsgQuizRepeated
  | MsgQuizNoScore
  | MsgQuizSaveError
  | MsgInvalidClassCode
  | MsgAlreadyInClass
  | MsgJoinedClass
  | MsgJoinError
  | MsgLoadError string

type_synonym Toast = "ToastMsg \<times> ToastLevel"

section \<open>Achievement rule engine (src/utils/gamificationEngine.ts)\<close>

text \<open>The \<open>switch\<close> on the criterion type; it computes \<open>isUnlocked\<close>.\<close>

definition isUnlocked :: "UserGamificationStats \<Rightarrow> string option \<Rightarrow> int \<Rightarrow> bool" where
  "isUnlocked currentStats ctype target =
     (if ctype = Some ''quizzes'' then or0 (quizzesCompleted currentStats) \<ge> target
      else if ctype = Some ''modules'' then or0 (modulesCompleted currentStats) \<ge> target
      else if ctype = Some ''activities'' then or0 (activitiesCompleted currentStats) \<ge> target
      else False)"

text \<open>
  \<open>unlockedMap\<close> is a plain object, and \<open>unlockedMap[id]\<close> is a property lookup: it
  finds an own entry and otherwise the property of that name inherited from
  \<open>Object.prototype\<close>. The inherited properties are functions (for \<open>__proto__\<close> the
  prototype object), so they are truthy.
\<close>

definition objectPrototypeKeys :: "string list" where
  "objectPrototypeKeys =
     [''constructor'', ''hasOwnProperty'', ''isPrototypeOf'', ''propertyIsEnumerable'',
      ''toLocaleString'', ''toString'', ''valueOf'', ''__proto__'', ''__defineGetter__'',
      ''__defineSetter__'', ''__lookupGetter__'', ''__lookupSetter__'']"

definition lookupTruthy :: "UnlockedMap \<Rightarrow> string \<Rightarrow> bool" where
  "lookupTruthy obj key =
     (case obj key of Some entry \<Rightarrow> True | None \<Rightarrow> key \<in> set objectPrototypeKeys)"

text \<open>
  The \<open>for ... of\<close> loop over all achievements, in order. \<open>today\<close> is the value of
  \<open>new Date().toLocaleDateString('pt-BR')\<close>, read from the clock for each unlocked item;
  the model takes it as an argument.
\<close>

fun checkNewAchievements ::
  "string \<Rightarrow> UserGamificationStats \<Rightarrow> Achievement list \<Rightarrow> UnlockedMap \<Rightarrow> Achievement list" where
  "checkNewAchievements today currentStats [] unlockedMap = []"
| "checkNewAchievements today currentStats (achievement # rest) unlockedMap =
     (if lookupTruthy unlockedMap (ach_id achievement)
      then checkNewAchievements today currentStats rest unlockedMap
      else if ach_status achievement = Some Inativa
      then checkNewAchievements today currentStats rest unlockedMap
      else let target = or0 (criterionCount achievement) in
        if target \<le> 0
        then checkNewAchievements today currentStats rest unlockedMap
        else if isUnlocked currentStats (criterionType achievement) target
        then achievement\<lparr>ach_unlocked := True, ach_date := today\<rparr>
               # checkNewAchievements today currentStats rest unlockedMap
        else checkNewAchievements today currentStats rest unlockedMap)"

text \<open>
  The rule as the specification words it: a rule is newly unlocked when it is not
  already in the unlocked map, is not inactive, has a target strictly above 0, has a
  known criterion type, and the counter of that type has reached the target.
\<close>

definition counter_of :: "UserGamificationStats \<Rightarrow> string \<Rightarrow> int option" where
  "counter_of currentStats ctype =
     (if ctype = ''quizzes'' then Some (or0 (quizzesCompleted currentStats))
      else if ctype = ''modules'' then Some (or0 (modulesCompleted currentStats))
      else if ctype = ''activities'' then Some (or0 (activitiesCompleted currentStats))
      else None)"

definition spec_newly_unlocked :: "UserGamificationStats \<Rightarrow> UnlockedMap \<Rightarrow> Achievement \<Rightarrow> bool" where
  "spec_newly_unlocked currentStats unlockedMap r =
     (ach_id r \<notin> dom unlockedMap \<and>
      ach_status r \<noteq> Some Inativa \<and>
      or0 (criterionCount r) > 0 \<and>
      (\<exists>ctype c. criterionType r = Some ctype \<and> counter_of currentStats ctype = Some c
                 \<and> c \<ge> or0 (criterionCount r)))"

definition annotate :: "string \<Rightarrow> Achievement \<Rightarrow> Achievement" where
  "annotate today r = r\<lparr>ach_unlocked := True, ach_date := today\<rparr>"

section \<open>Notification merge (src/contexts/StudentDataContext.tsx, the notifications memo)\<close>

definition notifications :: "Notification list \<Rightarrow> Notification list \<Rightarrow> string set \<Rightarrow> Notification list" where
  "notifications privateNotifications broadcastNotifications readReceipts =
     (let combined = privateNotifications @ broadcastNotifications;
          processed = map (\<lambda>n. n\<lparr>n_read := n_read n \<or> n_id n \<in> readReceipts\<rparr>) combined
      in js_sort (\<lambda>a b. n_timestamp b - n_timestamp a) processed)"

definition unreadNotificationCount :: "Notification list \<Rightarrow> Notification list \<Rightarrow> string set \<Rightarrow> nat" where
  "unreadNotificationCount privateNotifications broadcastNotifications readReceipts =
     length (filter (\<lambda>n. \<not> n_read n)
       (notifications privateNotifications broadcastNotifications readReceipts))"

section \<open>Grade report (the gradeReport memo)\<close>

text \<open>
  \<open>report\<close> and the \<open>unidades\<close> of a class report are plain objects used as
  dictionaries. A lookup finds an own entry, and otherwise the property of that name
  inherited from \<open>Object.prototype\<close>: a truthy value with none of the properties of an
  entry.
\<close>

datatype 'a Property = Own 'a | Inherited | Undefined

definition lookupProperty :: "(string \<rightharpoonup> 'a) \<Rightarrow> string \<Rightarrow> 'a Property" where
  "lookupProperty obj key =
     (case obj key of
        Some v \<Rightarrow> Own v
      | None \<Rightarrow> if key \<in> set objectPrototypeKeys then Inherited else Undefined)"


















section \<open>Quiz completion (handleQuizComplete)\<close>

text \<open>
  A document of \<open>users/{uid}/quiz_results\<close>, keyed by the quiz id. The server timestamp
  \<open>lastCompletedAt\<close> is left out.
\<close>

record QuizResultDoc =
  qr_quizId :: string
  qr_title :: string
  lastScore :: int
  totalQuestions :: int
  qr_attempts :: "int option"
  bestScore :: "int option"

text \<open>
  What the handler reads and writes: the user's quiz results and the \<open>xp\<close> field of
  \<open>userAchievements/{uid}\<close> in the remote store, and the provider's local state.
\<close>

record QuizWorld =
  quiz_results :: "string \<rightharpoonup> QuizResultDoc"
  achievements_xp :: "int option"
  userStats :: UserStats
  quizzes :: "Quiz list"
  quiz_toasts :: "Toast list"

text \<open>Which of the three awaited store calls rejects.\<close>

record QuizIO =
  getResult_fails :: bool
  setResult_fails :: bool
  setStats_fails :: bool

definition quizSaveError :: "QuizWorld \<Rightarrow> QuizWorld" where
  "quizSaveError w = w\<lparr>quiz_toasts := quiz_toasts w @ [(MsgQuizSaveError, toast_error)]\<rparr>"

definition bumpAttempts :: "string \<Rightarrow> QuizWorld \<Rightarrow> QuizWorld" where
  "bumpAttempts quizId w =
     w\<lparr>quizzes := map (\<lambda>q. if quiz_id q = quizId
                             then q\<lparr>quiz_attempts := Some (or0 (quiz_attempts q) + 1)\<rparr>
                             else q) (quizzes w)\<rparr>"

definition handleQuizComplete ::
  "QuizIO \<Rightarrow> User option \<Rightarrow> string \<Rightarrow> string \<Rightarrow> int \<Rightarrow> int \<Rightarrow> QuizWorld \<Rightarrow> int \<times> QuizWorld" where
  "handleQuizComplete io user quizId title score totalN w =
     (case user of
        None \<Rightarrow> (0, w)
      | Some u \<Rightarrow>
          if getResult_fails io then (0, quizSaveError w)
          else
            let resultSnap = quiz_results w quizId;
                previousAttempts = (case resultSnap of None \<Rightarrow> 0 | Some d \<Rightarrow> or0 (qr_attempts d));
                xpEarned = (if previousAttempts = 0 then score * 10 else 0);
                resultData =
                  \<lparr>qr_quizId = quizId, qr_title = title, lastScore = score,
                   totalQuestions = totalN,
                   qr_attempts = Some (increment 1
                     (case resultSnap of None \<Rightarrow> None | Some d \<Rightarrow> qr_attempts d)),
                   bestScore = Some (case resultSnap of
                       None \<Rightarrow> score
                     | Some d \<Rightarrow> max (or0 (bestScore d)) score)\<rparr>
            in if setResult_fails io then (0, quizSaveError w)
               else
                 let w1 = w\<lparr>quiz_results := (quiz_results w)(quizId \<mapsto> resultData)\<rparr>
                 in if xpEarned > 0 then
                      if setStats_fails io then (0, quizSaveError w1)
                      else
                        (xpEarned,
                         bumpAttempts quizId
                           (w1\<lparr>achievements_xp := Some (increment xpEarned (achievements_xp w1)),
                               userStats := (userStats w1)
                                 \<lparr>xp := xp (userStats w1) + xpEarned,
                                  level := (xp (userStats w1) + xpEarned) div 100 + 1\<rparr>,
                               quiz_toasts := quiz_toasts w1 @ [(MsgXpEarned xpEarned, toast_success)]\<rparr>))
                    else if previousAttempts > 0 then
                      (xpEarned,
                       bumpAttempts quizId
                         (w1\<lparr>quiz_toasts := quiz_toasts w1 @ [(MsgQuizRepeated, toast_info)]\<rparr>))
                    else if score = 0 then
                      (xpEarned,
                       bumpAttempts quizId
                         (w1\<lparr>quiz_toasts := quiz_toasts w1 @ [(MsgQuizNoScore, toast_info)]\<rparr>))
                    else (xpEarned, bumpAttempts quizId w1))"

section \<open>Joining a class (handleJoinClass)\<close>

text \<open>
  The remote documents the handler touches: the \<open>classes\<close> collection and the
  \<open>totalStudents\<close> counter of \<open>teacher_history/{teacherId}\<close>.
\<close>

record ClassStore =
  classes :: "string \<rightharpoonup> TeacherClass"
  teacher_history :: "string \<rightharpoonup> int"

text \<open>
  The outcomes of the awaited calls. \<open>query_snapshot\<close> is the \<open>classes\<close> collection as
  the query by code reads it (it may be older than the store the transaction sees), or
  the message of the error it throws. The two faults are transport failures of the
  transaction: of its read and of its commit.
\<close>

record JoinIO =
  query_snapshot :: "string + TeacherClass list"
  tx_get_fault :: "string option"
  tx_commit_fault :: "string option"

definition entryIsUser :: "string \<Rightarrow> StudentEntry \<Rightarrow> bool" where
  "entryIsUser uid s = (case s of EntryId i \<Rightarrow> i = uid | EntryObj r \<Rightarrow> sr_id r = uid)"

text \<open>
  The function passed to \<open>runTransaction\<close>: it runs on one state of the store and
  either throws (the store is left as it was) or yields the store with both writes
  applied. The message of the first throw is written without its accents.
\<close>

definition joinTransaction ::
  "JoinIO \<Rightarrow> User \<Rightarrow> string \<Rightarrow> string \<Rightarrow> ClassStore \<Rightarrow> string + ClassStore" where
  "joinTransaction io u cid tid store =
     (case tx_get_fault io of
        Some e \<Rightarrow> Inl e
      | None \<Rightarrow>
         (case classes store cid of
            None \<Rightarrow> Inl ''Turma nao encontrada durante transacao.''
          | Some currentData \<Rightarrow>
              let currentStudentIds = (case studentIds currentData of None \<Rightarrow> [] | Some ids \<Rightarrow> ids)
              in if user_id u \<in> set currentStudentIds then Inl ''User already in class''
                 else
                   (case tx_commit_fault io of
                      Some e \<Rightarrow> Inl e
                    | None \<Rightarrow>
                        Inr (store\<lparr>classes := (classes store)(cid \<mapsto> currentData
                               \<lparr>studentIds := Some (arrayUnion (user_id u) (studentIds currentData)),
                                students := Some (arrayUnion
                                  (EntryObj \<lparr>sr_id = user_id u, sr_name = user_name u,
                                     sr_avatarUrl = (case user_avatarUrl u of
                                         None \<Rightarrow> None
                                       | Some a \<Rightarrow> if a = '''' then None else Some a)\<rparr>)
                                  (students currentData)),
                                studentCount := Some (increment 1 (studentCount currentData))\<rparr>),
                             teacher_history := (teacher_history store)
                               (tid \<mapsto> increment 1 (teacher_history store tid))\<rparr>))))"

text \<open>
  The check made on the query's document before the transaction (\<open>isMember\<close>): by
  \<open>studentIds\<close> when that is an array, else by the legacy \<open>students\<close> array.
\<close>

definition isMember :: "string \<Rightarrow> TeacherClass \<Rightarrow> bool" where
  "isMember uid classData =
     (case studentIds classData of
        Some ids \<Rightarrow> uid \<in> set ids
      | None \<Rightarrow>
         (case students classData of
            Some ss \<Rightarrow> list_ex (entryIsUser uid) ss
          | None \<Rightarrow> False))"

text \<open>The \<open>catch\<close> of the handler: the notice chosen from the error's message.\<close>

definition joinCatch :: "string \<Rightarrow> Toast" where
  "joinCatch message =
     (if message = ''User already in class'' then (MsgAlreadyInClass, toast_info)
      else (MsgJoinError, toast_error))"

text \<open>
  The handler returns its boolean; the model also returns the store after the call and
  the notices shown. After a successful join the handler awaits \<open>refreshData(true)\<close>,
  which reloads local state and does not write to these documents.
\<close>

definition handleJoinClass ::
  "JoinIO \<Rightarrow> User option \<Rightarrow> string \<Rightarrow> ClassStore \<Rightarrow> bool \<times> ClassStore \<times> Toast list" where
  "handleJoinClass io user code store =
     (case user of
        None \<Rightarrow> (False, store, [])
      | Some u \<Rightarrow>
         (case query_snapshot io of
            Inl e \<Rightarrow> (False, store, [joinCatch e])
          | Inr snapshot \<Rightarrow>
             (case filter (\<lambda>c. class_code c = code) snapshot of
                [] \<Rightarrow> (False, store, [(MsgInvalidClassCode, toast_error)])
              | classData # _ \<Rightarrow>
                  if isMember (user_id u) classData
                  then (False, store, [(MsgAlreadyInClass, toast_info)])
                  else
                    (case joinTransaction io u (class_id classData) (teacherId classData) store of
                       Inl e \<Rightarrow> (False, store, [joinCatch e])
                     | Inr store' \<Rightarrow> (True, store', [(MsgJoinedClass, toast_success)])))))"

section \<open>Bulk reads: cache first, then network\<close>

text \<open>
  \<open>getDocs(q, {source: 'cache'})\<close> and \<open>getDocs(q)\<close> of the store client. A call either
  throws (the error's message) or yields the snapshot's documents. Each read below
  returns, next to its outcome, the calls it made, in order.
\<close>

datatype Source = Cache | Network

datatype 'd Outcome = Throws string | Snap "'d list"

text \<open>
  The queries the provider builds: classes of a student; active quizzes and active
  public modules (with the series filter when the user has a series); the user's quiz
  results; active modules of a chunk of class ids (\<open>array-contains-any\<close>); a page of
  visible activities of a chunk of class ids (\<open>in\<close>), newest first, limited to the
  page size, after a cursor document when one is given.
\<close>

datatype Query =
    QClasses string
  | QQuizzes "string option"
  | QPublicModules "string option"
  | QQuizResults string
  | QClassModules "string list"
  | QActivities "string list" "Activity option"

type_synonym Call = "Query \<times> Source"

text \<open>
  The store client as the provider sees it: what each query yields from each source.
  \<open>docUserProgress\<close> is the \<open>getDoc\<close> of the user's profile, reduced to the progress
  recorded per module id. \<open>settleOrder\<close> is the timing of the content queries that
  \<open>refreshData\<close> starts together: the indices of its \<open>queries\<close> array in the order
  in which their promises settle.
\<close>

record StoreClient =
  docsClasses :: "string \<Rightarrow> Source \<Rightarrow> TeacherClass Outcome"
  docsQuizzes :: "string option \<Rightarrow> Source \<Rightarrow> Quiz Outcome"
  docsPublicModules :: "string option \<Rightarrow> Source \<Rightarrow> Module Outcome"
  docsQuizResults :: "string \<Rightarrow> Source \<Rightarrow> QuizResultDoc Outcome"
  docsClassModules :: "string list \<Rightarrow> Source \<Rightarrow> Module Outcome"
  docsActivities :: "string list \<Rightarrow> Activity option \<Rightarrow> Source \<Rightarrow> Activity Outcome"
  docUserProgress :: "string \<Rightarrow> string + (string \<rightharpoonup> int)"
  settleOrder :: "nat list"

text \<open>
  The read of the class list in \<open>refreshData\<close>, with its two variables \<open>classesSnap\<close>
  and \<open>isCache\<close>. The last branch cannot be reached (\<open>isCache\<close> is set only after
  \<open>classesSnap\<close>); there \<open>classesSnap!.docs\<close> would throw.
\<close>

definition readClasses :: "bool \<Rightarrow> (Source \<Rightarrow> 'd Outcome) \<Rightarrow> Source list \<times> 'd Outcome" where
  "readClasses forceRefresh getDocs =
     (let (calls, classesSnap, isCache) =
            (if \<not> forceRefresh then
               (case getDocs Cache of
                  Snap ds \<Rightarrow> ([Cache], Some ds, ds \<noteq> [])
                | Throws e \<Rightarrow> ([Cache], None, False))
             else ([], None, False))
      in if \<not> isCache \<or> (case classesSnap of Some ds \<Rightarrow> ds = [] | None \<Rightarrow> False)
         then (calls @ [Network], getDocs Network)
         else (calls, (case classesSnap of Some ds \<Rightarrow> Snap ds | None \<Rightarrow> Throws ''TypeError'')))"

text \<open>The function mapped over the \<open>queries\<close> array in \<open>refreshData\<close>.\<close>

definition runQuery :: "bool \<Rightarrow> (Source \<Rightarrow> 'd Outcome) \<Rightarrow> Source list \<times> 'd Outcome" where
  "runQuery forceRefresh getDocs =
     (if \<not> forceRefresh then
        (case getDocs Cache of
           Snap ds \<Rightarrow> if ds \<noteq> [] then ([Cache], Snap ds) else ([Cache, Network], getDocs Network)
         | Throws e \<Rightarrow> ([Cache, Network], getDocs Network))
      else ([Network], getDocs Network))"

section \<open>Paginated activities (fetchStudentActivities, loadMoreActivities)\<close>

definition ACTIVITIES_PER_PAGE :: nat where
  "ACTIVITIES_PER_PAGE = 10"

record ActivityPage =
  page_activities :: "Activity list"
  lastDoc :: "Activity option"
  hasMore :: bool

definition emptyPage :: ActivityPage where
  "emptyPage = \<lparr>page_activities = [], lastDoc = None, hasMore = False\<rparr>"

text \<open>
  A document snapshot used as cursor is the activity it holds. The outer \<open>catch\<close> turns
  a network error into an empty page.
\<close>

definition fetchStudentActivities ::
  "StoreClient \<Rightarrow> string list \<Rightarrow> Activity option \<Rightarrow> Call list \<times> ActivityPage" where
  "fetchStudentActivities client classIds startAfterDoc =
     (if length classIds = 0 then ([], emptyPage)
      else
        let classChunk = take 10 classIds;
            getDocs = docsActivities client classChunk startAfterDoc;
            (calls, snap) =
              (case startAfterDoc of
                 None \<Rightarrow>
                   (case getDocs Cache of
                      Snap ds \<Rightarrow>
                        if ds = [] then ([Cache, Network], getDocs Network) else ([Cache], Snap ds)
                    | Throws e \<Rightarrow> ([Cache, Network], getDocs Network))
               | Some d \<Rightarrow> ([Network], getDocs Network))
        in (map (Pair (QActivities classChunk startAfterDoc)) calls,
            (case snap of
               Throws e \<Rightarrow> emptyPage
             | Snap docs \<Rightarrow>
                 \<lparr>page_activities = docs,
                  lastDoc = (if docs = [] then None else Some (last docs)),
                  hasMore = (length docs = ACTIVITIES_PER_PAGE)\<rparr>)))"

text \<open>The part of the provider's state that the reads below set.\<close>

record StudentState =
  st_modules :: "Module list"
  st_quizzes :: "Quiz list"
  st_activities :: "Activity list"
  studentClasses :: "TeacherClass list"
  lastActivityDoc :: "Activity option"
  hasMoreActivities :: bool
  isLoadingMoreActivities :: bool
  isLoading :: bool
  st_toasts :: "Toast list"

definition loadMoreActivities :: "StoreClient \<Rightarrow> StudentState \<Rightarrow> Call list \<times> StudentState" where
  "loadMoreActivities client st =
     (if lastActivityDoc st = None \<or> isLoadingMoreActivities st \<or> length (studentClasses st) = 0
      then ([], st)
      else
        let classIds = map class_id (studentClasses st);
            (calls, result) = fetchStudentActivities client classIds (lastActivityDoc st);
            newIds = set (map act_id (page_activities result))
        in (calls,
            st\<lparr>st_activities := st_activities st @
                  filter (\<lambda>a. act_id a \<notin> newIds) (page_activities result),
               lastActivityDoc := lastDoc result,
               hasMoreActivities := hasMore result,
               isLoadingMoreActivities := False\<rparr>))"

section \<open>refreshData\<close>

text \<open>
  The loop \<open>for (let i = 0; i < myClassIds.length; i += 10)\<close> with
  \<open>chunk = myClassIds.slice(i, i + 10)\<close>: the chunks it pushes queries for.
\<close>

function classIdChunks :: "nat \<Rightarrow> string list \<Rightarrow> string list list" where
  "classIdChunks i myClassIds =
     (if i < length myClassIds
      then take 10 (drop i myClassIds) # classIdChunks (i + 10) myClassIds
      else [])"
  by pat_completeness auto
termination
  by (relation "measure (\<lambda>(i, myClassIds). length myClassIds - i)") auto

declare classIdChunks.simps [simp del]

text \<open>
  \<open>modulesMap\<close> is a \<open>Map\<close>: it keeps insertion order, and \<open>set\<close> on a key it has
  replaces the value in place.
\<close>

fun mapSet :: "string \<Rightarrow> 'v \<Rightarrow> (string \<times> 'v) list \<Rightarrow> (string \<times> 'v) list" where
  "mapSet k v [] = [(k, v)]"
| "mapSet k v ((k', v') # rest) =
     (if k' = k then (k, v) # rest else (k', v') # mapSet k v rest)"

definition mapHas :: "string \<Rightarrow> (string \<times> 'v) list \<Rightarrow> bool" where
  "mapHas k m = list_ex (\<lambda>(k', v). k' = k) m"

definition mergeModules :: "Module list \<Rightarrow> Module list list \<Rightarrow> Module list" where
  "mergeModules publicModules classResults =
     (let modulesMap = foldl (\<lambda>m d. mapSet (m_id d) d m) [] publicModules;
          modulesMap' =
            foldl (\<lambda>m docs. foldl (\<lambda>m d. if mapHas (m_id d) m then m else mapSet (m_id d) d m) m docs)
              modulesMap classResults
      in map snd modulesMap')"

definition thrown :: "'d Outcome \<Rightarrow> string option" where
  "thrown r = (case r of Throws e \<Rightarrow> Some e | Snap ds \<Rightarrow> None)"

definition docsOf :: "'d Outcome \<Rightarrow> 'd list" where
  "docsOf r = (case r of Throws e \<Rightarrow> [] | Snap ds \<Rightarrow> ds)"

text \<open>
  The order in which \<open>n\<close> promises started together settle, from the timing
  \<open>settled\<close>: the promises that \<open>settled\<close> does not list settle after the listed
  ones, in array order.
\<close>

definition settleTimes :: "nat list \<Rightarrow> nat \<Rightarrow> nat list" where
  "settleTimes settled n = settled @ filter (\<lambda>i. i \<notin> set settled) [0..<n]"

text \<open>
  \<open>Promise.all\<close> rejects with the error of the promise that rejects first in time.
  \<open>errors\<close> holds, per query of the array, the error its promise rejects with.
\<close>

definition firstRejection :: "nat list \<Rightarrow> string option list \<Rightarrow> string option" where
  "firstRejection settled errors =
     (case List.find (\<lambda>i. i < length errors \<and> errors ! i \<noteq> None)
             (settleTimes settled (length errors)) of
        Some i \<Rightarrow> errors ! i
      | None \<Rightarrow> None)"

text \<open>The \<open>catch\<close> and \<open>finally\<close> of \<open>refreshData\<close>.\<close>

definition loadError :: "string \<Rightarrow> StudentState \<Rightarrow> StudentState" where
  "loadError e st = st\<lparr>st_toasts := st_toasts st @ [(MsgLoadError e, toast_error)], isLoading := False\<rparr>"

text \<open>\<open>user.series\<close> as a condition: a missing or empty series adds no filter.\<close>

definition seriesFilter :: "User \<Rightarrow> string option" where
  "seriesFilter u = (case user_series u of None \<Rightarrow> None | Some s \<Rightarrow> if s = '''' then None else Some s)"

definition enrichActivity :: "TeacherClass list \<Rightarrow> Activity \<Rightarrow> Activity" where
  "enrichActivity myClasses act =
     (if className act = None \<or> className act = Some '''' \<or> className act = Some ''Turma desconhecida''
      then (case List.find (\<lambda>c. class_id c = classId act) myClasses of
              Some cls \<Rightarrow> act\<lparr>className := Some (class_name cls)\<rparr>
            | None \<Rightarrow> act)
      else act)"

text \<open>
  The rest of \<open>refreshData\<close> once the class list is read: the content queries (all are
  started; the first rejection in time aborts), quizzes with their attempts, the merged module
  list with progress, and the first page of activities. The merge of the achievement
  documents in between reads through two helpers that catch their own errors and sets
  only the achievement list and the user statistics; it is left out.

  \<open>quizAttemptsMap\<close> and \<open>progressMap\<close> are plain objects. An assignment of a number
  to the key \<open>__proto__\<close> has no effect. For an id that names an inherited property and
  has no own entry, \<open>progressMap[m.id].progress\<close> is \<open>undefined\<close>, and
  \<open>quizAttemptsMap[d.id] || 0\<close> is the inherited property, which is not a number: the
  model records no number for it.
\<close>

definition refreshContent ::
  "StoreClient \<Rightarrow> User \<Rightarrow> bool \<Rightarrow> TeacherClass list \<Rightarrow> StudentState \<Rightarrow> Call list \<times> StudentState" where
  "refreshContent client u forceRefresh myClasses st =
     (let myClassIds = map class_id myClasses;
          (cq, quizzesSnap) = runQuery forceRefresh (docsQuizzes client (seriesFilter u));
          (cm, publicModulesSnap) = runQuery forceRefresh (docsPublicModules client (seriesFilter u));
          (cr, quizResultsSnap) = runQuery forceRefresh (docsQuizResults client (user_id u));
          chunks = (if length myClassIds > 0 then classIdChunks 0 myClassIds else []);
          chunkReads = map (\<lambda>chunk. (chunk, runQuery forceRefresh (docsClassModules client chunk))) chunks;
          calls = map (Pair (QQuizzes (seriesFilter u))) cq
                @ map (Pair (QPublicModules (seriesFilter u))) cm
                @ map (Pair (QQuizResults (user_id u))) cr
                @ concat (map (\<lambda>(chunk, r). map (Pair (QClassModules chunk)) (fst r)) chunkReads);
          errors = [thrown quizzesSnap, thrown publicModulesSnap, thrown quizResultsSnap]
                @ map (\<lambda>(chunk, r). thrown (snd r)) chunkReads
      in (case firstRejection (settleOrder client) errors of
           Some e \<Rightarrow> (calls, loadError e st)
         | None \<Rightarrow>
           let quizAttemptsMap =
                 foldl (\<lambda>m d. if qr_quizId d = ''__proto__'' then m
                                else m(qr_quizId d \<mapsto> or0 (qr_attempts d)))
                   Map.empty (docsOf quizResultsSnap);
               fetchedQuizzes =
                 map (\<lambda>q. q\<lparr>quiz_attempts :=
                             (case lookupProperty quizAttemptsMap (quiz_id q) of
                                Own n \<Rightarrow> Some n
                              | Inherited \<Rightarrow> None
                              | Undefined \<Rightarrow> Some 0)\<rparr>)
                   (docsOf quizzesSnap);
               st3 = st\<lparr>st_quizzes := fetchedQuizzes\<rparr>;
               rawModules = mergeModules (docsOf publicModulesSnap)
                              (map (\<lambda>(chunk, r). docsOf (snd r)) chunkReads)
           in (case docUserProgress client (user_id u) of
                Inl e \<Rightarrow> (calls, loadError e st3)
              | Inr progressMap \<Rightarrow>
                  let mergedModules =
                        map (\<lambda>m. m\<lparr>m_progress :=
                                    (case lookupProperty progressMap (m_id m) of
                                       Own progress \<Rightarrow> Some progress
                                     | Inherited \<Rightarrow> None
                                     | Undefined \<Rightarrow> Some 0)\<rparr>)
                          rawModules;
                      st4 = st3\<lparr>st_modules := mergedModules\<rparr>;
                      (ca, activityResult) = fetchStudentActivities client myClassIds None
                  in (calls @ ca,
                      st4\<lparr>st_activities := map (enrichActivity myClasses) (page_activities activityResult),
                          lastActivityDoc := lastDoc activityResult,
                          hasMoreActivities := hasMore activityResult,
                          isLoading := False\<rparr>))))"

definition refreshData ::
  "StoreClient \<Rightarrow> User option \<Rightarrow> bool \<Rightarrow> StudentState \<Rightarrow> Call list \<times> StudentState" where
  "refreshData client user forceRefresh st =
     (case user of
        None \<Rightarrow> ([], st\<lparr>isLoading := False\<rparr>)
      | Some u \<Rightarrow>
          if user_role u \<noteq> Some aluno then ([], st\<lparr>isLoading := False\<rparr>)
          else
            let st1 = st\<lparr>isLoading := True\<rparr>;
                (c1, classesSnap) = readClasses forceRefresh (docsClasses client (user_id u));
                calls1 = map (Pair (QClasses (user_id u))) c1
            in (case classesSnap of
                  Throws e \<Rightarrow> (calls1, loadError e st1)
                | Snap myClasses \<Rightarrow>
                    let (c2, st2) = refreshContent client u forceRefresh myClasses
                                      (st1\<lparr>studentClasses := myClasses\<rparr>)
                    in (calls1 @ c2, st2)))"

section \<open>A remote store to run the reads against\<close>

text \<open>
  Modelled from the spec: the remote document store is an external collaborator, so its
  answers follow the store interface of the specification (filtered, ordered, limited
  queries with \<open>startAfter(cursor)\<close> and \<open>array-contains-any\<close>). \<open>startAfter\<close>
  cuts an ordered result after the cursor document.
\<close>

definition startAfter :: "Activity option \<Rightarrow> Activity list \<Rightarrow> Activity list" where
  "startAfter cursor docs =
     (case cursor of
        None \<Rightarrow> docs
      | Some c \<Rightarrow> drop 1 (dropWhile (\<lambda>a. act_id a \<noteq> act_id c) docs))"

text \<open>
  Modelled from the spec: the store's answer to the page query, which is not in the
  repository. Visible activities of the given classes, newest first (ties in feed
  order), after the cursor, at most a page.
\<close>

definition storeActivities :: "Activity list \<Rightarrow> string list \<Rightarrow> Activity option \<Rightarrow> Activity list" where
  "storeActivities feed classChunk cursor =
     take ACTIVITIES_PER_PAGE (startAfter cursor
       (js_sort (\<lambda>a b. createdAt b - createdAt a)
          (filter (\<lambda>a. classId a \<in> set classChunk \<and> isVisible a) feed)))"

text \<open>
  Modelled from the spec: the store's answer to a class-module query, which is not in
  the repository. Active modules assigned to any class of the chunk.
\<close>

definition storeClassModules :: "Module list \<Rightarrow> string list \<Rightarrow> Module list" where
  "storeClassModules mods chunk =
     filter (\<lambda>m. m_status m = Some ''Ativo'' \<and>
                 (case m_classIds m of None \<Rightarrow> False | Some cs \<Rightarrow> list_ex (\<lambda>c. c \<in> set chunk) cs))
       mods"

text \<open>
  Modelled from the spec: a store client over given collections. The network serves
  \<open>feed\<close>; the local cache holds the activities \<open>cached\<close> and nothing else.
\<close>

definition storeClient :: "TeacherClass list \<Rightarrow> Module list \<Rightarrow> Activity list \<Rightarrow> Activity list \<Rightarrow> StoreClient" where
  "storeClient cls mods cached feed =
     \<lparr>docsClasses = (\<lambda>uid src. case src of
          Cache \<Rightarrow> Snap []
        | Network \<Rightarrow> Snap (filter (\<lambda>c. case studentIds c of None \<Rightarrow> False | Some ids \<Rightarrow> uid \<in> set ids) cls)),
      docsQuizzes = (\<lambda>series src. Snap []),
      docsPublicModules = (\<lambda>series src. Snap []),
      docsQuizResults = (\<lambda>uid src. Snap []),
      docsClassModules = (\<lambda>chunk src. case src of
          Cache \<Rightarrow> Snap []
        | Network \<Rightarrow> Snap (storeClassModules mods chunk)),
      docsActivities = (\<lambda>chunk cursor src. case src of
          Cache \<Rightarrow> Snap (storeActivities cached chunk cursor)
        | Network \<Rightarrow> Snap (storeActivities feed chunk cursor)),
      docUserProgress = (\<lambda>uid. Inr Map.empty),
      settleOrder = []\<rparr>"

section \<open>The specification's wording, and sample data\<close>

text \<open>
  The definitions of this section are not translations of code. They phrase what the
  specification says, for comparison with the functions above, and fix small inputs on
  which the theorems are run.
\<close>

text \<open>The read flag of the derived view: the original flag, or a read receipt.\<close>

definition recomputeRead :: "string set \<Rightarrow> Notification \<Rightarrow> Notification" where
  "recomputeRead readReceipts n = n\<lparr>n_read := n_read n \<or> n_id n \<in> readReceipts\<rparr>"



text \<open>The attempts and best score recorded for a quiz before or after a completion.\<close>

definition previousAttempts :: "QuizWorld \<Rightarrow> string \<Rightarrow> int" where
  "previousAttempts w quizId =
     (case quiz_results w quizId of None \<Rightarrow> 0 | Some d \<Rightarrow> or0 (qr_attempts d))"

definition storedAttempts :: "QuizWorld \<Rightarrow> string \<Rightarrow> int option" where
  "storedAttempts w quizId =
     (case quiz_results w quizId of None \<Rightarrow> None | Some d \<Rightarrow> qr_attempts d)"

definition storedBestScore :: "QuizWorld \<Rightarrow> string \<Rightarrow> int option" where
  "storedBestScore w quizId =
     (case quiz_results w quizId of None \<Rightarrow> None | Some d \<Rightarrow> bestScore d)"

text \<open>
  The executor as the specification words it: a forced refresh reads the network only;
  otherwise the cache is read first, and the network is read exactly when the cache
  read returned no document or threw. The outcome is that of the last read, so a cache
  error is never the outcome and a network error is.
\<close>

definition cacheMiss :: "(Source \<Rightarrow> 'd Outcome) \<Rightarrow> bool" where
  "cacheMiss getDocs = (case getDocs Cache of Snap ds \<Rightarrow> ds = [] | Throws e \<Rightarrow> True)"

definition cacheFirst :: "bool \<Rightarrow> (Source \<Rightarrow> 'd Outcome) \<Rightarrow> Source list \<times> 'd Outcome" where
  "cacheFirst forceRefresh getDocs =
     (if forceRefresh then ([Network], getDocs Network)
      else if cacheMiss getDocs then ([Cache, Network], getDocs Network)
      else ([Cache], getDocs Cache))"

text \<open>
  The error a read of the executor ends with: that of its network read, when the
  network is read and throws. The errors of the content queries of \<open>refreshData\<close>, in
  the order of its \<open>queries\<close> array, and the reads these queries make.
\<close>

definition readError :: "bool \<Rightarrow> (Source \<Rightarrow> 'd Outcome) \<Rightarrow> string option" where
  "readError forceRefresh getDocs =
     (if forceRefresh \<or> cacheMiss getDocs
      then (case getDocs Network of Throws e \<Rightarrow> Some e | Snap ds \<Rightarrow> None)
      else None)"

definition contentErrors :: "StoreClient \<Rightarrow> User \<Rightarrow> bool \<Rightarrow> TeacherClass list \<Rightarrow> string option list" where
  "contentErrors client u forceRefresh myClasses =
     [readError forceRefresh (docsQuizzes client (seriesFilter u)),
      readError forceRefresh (docsPublicModules client (seriesFilter u)),
      readError forceRefresh (docsQuizResults client (user_id u))]
     @ map (\<lambda>chunk. readError forceRefresh (docsClassModules client chunk))
         (classIdChunks 0 (map class_id myClasses))"

definition contentCalls :: "StoreClient \<Rightarrow> User \<Rightarrow> bool \<Rightarrow> TeacherClass list \<Rightarrow> Call list" where
  "contentCalls client u forceRefresh myClasses =
     map (Pair (QQuizzes (seriesFilter u)))
       (fst (cacheFirst forceRefresh (docsQuizzes client (seriesFilter u))))
     @ map (Pair (QPublicModules (seriesFilter u)))
       (fst (cacheFirst forceRefresh (docsPublicModules client (seriesFilter u))))
     @ map (Pair (QQuizResults (user_id u)))
       (fst (cacheFirst forceRefresh (docsQuizResults client (user_id u))))
     @ concat (map (\<lambda>chunk. map (Pair (QClassModules chunk))
                      (fst (cacheFirst forceRefresh (docsClassModules client chunk))))
         (classIdChunks 0 (map class_id myClasses)))"

text \<open>
  Query \<open>i\<close> is the first to reject in the order \<open>order\<close> of settling, with error
  \<open>e\<close>: it rejects with \<open>e\<close>, and no query that settles before it rejects.
\<close>

definition firstInTime :: "nat list \<Rightarrow> string option list \<Rightarrow> nat \<Rightarrow> string \<Rightarrow> bool" where
  "firstInTime order errors i e \<longleftrightarrow>
     i \<in> set order \<and> i < length errors \<and> errors ! i = Some e
     \<and> (\<forall>j\<in>set (takeWhile (\<lambda>j. j \<noteq> i) order). j < length errors \<longrightarrow> errors ! j = None)"

text \<open>The page made from a read's outcome; an error gives the empty page.\<close>

definition pageOf :: "Activity Outcome \<Rightarrow> ActivityPage" where
  "pageOf r =
     (case r of
        Throws e \<Rightarrow> emptyPage
      | Snap docs \<Rightarrow>
          \<lparr>page_activities = docs,
           lastDoc = (if docs = [] then None else Some (last docs)),
           hasMore = (length docs = 10)\<rparr>)"

text \<open>The chunks of the class-module queries among the calls of a trace, in order.\<close>

fun chunkQueries :: "Call list \<Rightarrow> string list list" where
  "chunkQueries [] = []"
| "chunkQueries ((QClassModules chunk, s) # calls) = chunk # chunkQueries calls"
| "chunkQueries (call # calls) = chunkQueries calls"

text \<open>The step of the module merge for a class result, and its invariant.\<close>

definition addNew :: "(string \<times> Module) list \<Rightarrow> Module \<Rightarrow> (string \<times> Module) list" where
  "addNew m d = (if mapHas (m_id d) m then m else mapSet (m_id d) d m)"

definition keyed :: "(string \<times> Module) list \<Rightarrow> bool" where
  "keyed m = list_all (\<lambda>(k, v). m_id v = k) m"

text \<open>The classes of the store that list the user among their student ids.\<close>

definition enrolledClasses :: "TeacherClass list \<Rightarrow> string \<Rightarrow> TeacherClass list" where
  "enrolledClasses cls uid =
     filter (\<lambda>c. case studentIds c of None \<Rightarrow> False | Some ids \<Rightarrow> uid \<in> set ids) cls"

subsection \<open>Sample data\<close>

definition ex_stats :: UserGamificationStats where
  "ex_stats = \<lparr>quizzesCompleted = Some 5, modulesCompleted = Some 2,
               activitiesCompleted = None, loginStreak = Some 1\<rparr>"

definition ex_rule :: "string \<Rightarrow> string \<Rightarrow> int option \<Rightarrow> AchievementStatus option \<Rightarrow> Achievement" where
  "ex_rule i ctype n s =
     \<lparr>ach_id = i, ach_title = i, ach_description = [], ach_date = [], ach_points = 10,
      ach_unlocked = False, ach_tier = bronze, criterionType = Some ctype,
      criterionCount = n, ach_status = s\<rparr>"

text \<open>
  Seven rules: one met, one with the counter below the target, one already unlocked,
  one inactive, one with target 0, one of an unknown criterion type, and one met with
  no status.
\<close>

definition ex_rules :: "Achievement list" where
  "ex_rules =
     [ex_rule ''q5'' ''quizzes'' (Some 5) (Some Ativa),
      ex_rule ''q6'' ''quizzes'' (Some 6) (Some Ativa),
      ex_rule ''m1'' ''modules'' (Some 1) (Some Ativa),
      ex_rule ''m2'' ''modules'' (Some 2) (Some Inativa),
      ex_rule ''a0'' ''activities'' (Some 0) None,
      ex_rule ''s1'' ''loginStreak'' (Some 1) None,
      ex_rule ''m3'' ''modules'' (Some 2) None]"

definition ex_unlocked :: UnlockedMap where
  "ex_unlocked = [''m1'' \<mapsto> \<lparr>unlock_date = ''2026-01-01'', unlock_seen = True\<rparr>]"

definition ex_note :: "string \<Rightarrow> int \<Rightarrow> bool \<Rightarrow> Notification" where
  "ex_note i t r =
     \<lparr>n_id = i, n_title = [], n_summary = [], n_urgency = medium, n_read = r,
      n_timestamp = t, n_userId = Some ''u1''\<rparr>"

definition ex_private :: "Notification list" where
  "ex_private = [ex_note ''p1'' 30 False, ex_note ''p2'' 10 False]"

definition ex_broadcast :: "Notification list" where
  "ex_broadcast = [ex_note ''b1'' 20 False, ex_note ''b2'' 30 False]"

definition ex_student :: User where
  "ex_student = \<lparr>user_id = ''u1'', user_name = ''Ana'', user_email = ''ana@escola'',
                 user_role = Some aluno, user_series = None, user_avatarUrl = None\<rparr>"

definition ex_class :: "string \<Rightarrow> string list \<Rightarrow> TeacherClass" where
  "ex_class c ids =
     \<lparr>class_id = c, class_name = c, class_code = ''ABC123'', teacherId = ''t1'',
      studentIds = Some ids, students = None, studentCount = Some (int (length ids))\<rparr>"


definition ex_activity ::
  "string \<Rightarrow> string \<Rightarrow> int \<Rightarrow> string option \<Rightarrow> ActivitySubmission list \<Rightarrow> Activity" where
  "ex_activity i c t u subs =
     \<lparr>act_id = i, act_title = i, classId = c, className = None, unidade = u, points = 10,
      isVisible = True, createdAt = t, submissions = Some subs\<rparr>"




definition ex_world :: QuizWorld where
  "ex_world =
     \<lparr>quiz_results = Map.empty, achievements_xp = Some 40,
      userStats = \<lparr>xp = 40, level = 1, xpForNextLevel = 100, levelName = ''Iniciante''\<rparr>,
      quizzes = [\<lparr>quiz_id = ''quiz1'', quiz_title = ''Quiz'', quiz_attempts = Some 0\<rparr>],
      quiz_toasts = []\<rparr>"

definition ex_io :: QuizIO where
  "ex_io = \<lparr>getResult_fails = False, setResult_fails = False, setStats_fails = False\<rparr>"

text \<open>
  A store in which the student is a member of class c1, and a query snapshot that is
  older: it shows the class without members.
\<close>

definition ex_store :: ClassStore where
  "ex_store = \<lparr>classes = [''c1'' \<mapsto> ex_class ''c1'' [''u1'']], teacher_history = [''t1'' \<mapsto> 1]\<rparr>"

definition ex_join_io :: JoinIO where
  "ex_join_io = \<lparr>query_snapshot = Inr [ex_class ''c1'' []], tx_get_fault = None,
                 tx_commit_fault = None\<rparr>"

definition ex_newcomer :: User where
  "ex_newcomer = \<lparr>user_id = ''u2'', user_name = ''Bia'', user_email = ''bia@escola'',
                  user_role = Some aluno, user_series = None, user_avatarUrl = None\<rparr>"

definition ex_state0 :: StudentState where
  "ex_state0 = \<lparr>st_modules = [], st_quizzes = [], st_activities = [], studentClasses = [],
                 lastActivityDoc = None, hasMoreActivities = False,
                 isLoadingMoreActivities = False, isLoading = True, st_toasts = []\<rparr>"

text \<open>A feed of eleven visible activities of class c1, newest first, and an empty cache.\<close>

definition ex_feed11 :: "Activity list" where
  "ex_feed11 =
     [ex_activity ''a11'' ''c1'' 11 None [], ex_activity ''a10'' ''c1'' 10 None [],
      ex_activity ''a09'' ''c1'' 9 None [], ex_activity ''a08'' ''c1'' 8 None [],
      ex_activity ''a07'' ''c1'' 7 None [], ex_activity ''a06'' ''c1'' 6 None [],
      ex_activity ''a05'' ''c1'' 5 None [], ex_activity ''a04'' ''c1'' 4 None [],
      ex_activity ''a03'' ''c1'' 3 None [], ex_activity ''a02'' ''c1'' 2 None [],
      ex_activity ''a01'' ''c1'' 1 None []]"

definition ex_client11 :: StoreClient where
  "ex_client11 = storeClient [ex_class ''c1'' [''u1'']] [] [] ex_feed11"

text \<open>A cache that holds an old page of class c1 while the network has a newer activity.\<close>

definition ex_stale :: "Activity list" where
  "ex_stale = [ex_activity ''old'' ''c1'' 1 None []]"

definition ex_fresh :: "Activity list" where
  "ex_fresh = [ex_activity ''new'' ''c1'' 2 None [], ex_activity ''old'' ''c1'' 1 None []]"

definition ex_client_cached :: StoreClient where
  "ex_client_cached = storeClient [ex_class ''c1'' [''u1'']] [] ex_stale ex_fresh"

text \<open>
  A store whose class list cannot be read from the network, and one in which the quiz
  query and the quiz-results query fail (the cache read of the quiz query fails too),
  the quiz-results query failing first in time.
\<close>

definition ex_client_offline :: StoreClient where
  "ex_client_offline =
     (storeClient [] [] [] [])
       \<lparr>docsClasses := (\<lambda>uid src. case src of Cache \<Rightarrow> Snap [] | Network \<Rightarrow> Throws ''offline'')\<rparr>"

definition ex_client_failing :: StoreClient where
  "ex_client_failing =
     (storeClient [ex_class ''c1'' [''u1'']] [] ex_stale ex_fresh)
       \<lparr>docsQuizzes := (\<lambda>series src. case src of
            Cache \<Rightarrow> Throws ''no cache''
          | Network \<Rightarrow> Throws ''quizzes unavailable''),
        docsQuizResults := (\<lambda>uid src. Throws ''results unavailable''),
        settleOrder := [2, 0, 1, 3]\<rparr>"

text \<open>Two active class modules, one of the first class and one of the eleventh.\<close>

definition ex_modules :: "Module list" where
  "ex_modules =
     [\<lparr>m_id = ''mA'', m_title = ''A'', m_status = Some ''Ativo'', m_visibility = Some ''specific_class'',
       m_classIds = Some [''c01''], m_progress = None\<rparr>,
      \<lparr>m_id = ''mB'', m_title = ''B'', m_status = Some ''Ativo'', m_visibility = Some ''specific_class'',
       m_classIds = Some [''c11''], m_progress = None\<rparr>]"

text \<open>A student of eleven classes; the only activity belongs to the eleventh.\<close>

definition ex_ids11 :: "string list" where
  "ex_ids11 = [''c01'', ''c02'', ''c03'', ''c04'', ''c05'', ''c06'', ''c07'', ''c08'', ''c09'',
               ''c10'', ''c11'']"

definition ex_feed_c11 :: "Activity list" where
  "ex_feed_c11 = [ex_activity ''x'' ''c11'' 1 None []]"

definition ex_client_11classes :: StoreClient where
  "ex_client_11classes =
     storeClient (map (\<lambda>c. ex_class c [''u1'']) ex_ids11) ex_modules [] ex_feed_c11"

section \<open>Verification: the achievement rule engine\<close>

lemma isUnlocked_counter:
  "isUnlocked currentStats ct target \<longleftrightarrow>
     (\<exists>ctype c. ct = Some ctype \<and> counter_of currentStats ctype = Some c \<and> c \<ge> target)"
  by (cases ct) (auto simp: isUnlocked_def counter_of_def)

lemma checkNewAchievements_step:
  "checkNewAchievements today currentStats (r # rules) unlockedMap =
     (if spec_newly_unlocked currentStats unlockedMap r \<and> ach_id r \<notin> set objectPrototypeKeys
      then annotate today r # checkNewAchievements today currentStats rules unlockedMap
      else checkNewAchievements today currentStats rules unlockedMap)"
  by (auto simp: spec_newly_unlocked_def isUnlocked_counter annotate_def Let_def domIff
        lookupTruthy_def split: option.splits)

lemma checkNewAchievements_filter:
  "checkNewAchievements today currentStats rules unlockedMap =
     map (annotate today)
       (filter (\<lambda>r. spec_newly_unlocked currentStats unlockedMap r \<and> ach_id r \<notin> set objectPrototypeKeys)
          rules)"
proof (induction rules)
  case Nil
  show ?case by simp
next
  case (Cons r rules)
  show ?case
    unfolding checkNewAchievements_step using Cons.IH by simp
qed

lemma annotate_id: "ach_id (annotate today r) = ach_id r"
  by (simp add: annotate_def)

lemma ex_rules_newly_unlocked:
  "filter (\<lambda>r. spec_newly_unlocked ex_stats ex_unlocked r \<and> ach_id r \<notin> set objectPrototypeKeys) ex_rules =
     [ex_rule ''q5'' ''quizzes'' (Some 5) (Some Ativa), ex_rule ''m3'' ''modules'' (Some 2) None]"
  by (simp add: spec_newly_unlocked_def counter_of_def ex_stats_def ex_unlocked_def ex_rules_def
      ex_rule_def or0_def objectPrototypeKeys_def)

text \<open>
  C3, on the code. The engine tests \<open>unlockedMap[achievement.id]\<close> for truthiness on a
  plain object. So it returns, in rule order and annotated as unlocked today, the rules
  that meet the five conditions of the specification and whose id is not the name of a
  property inherited from \<open>Object.prototype\<close>; no returned id is a key of the unlocked
  map. A rule with id \<open>constructor\<close> that meets all five conditions with an empty
  unlocked map is skipped as if it were already unlocked.
\<close>

theorem checkNewAchievements_skips_inherited_key:
  "checkNewAchievements today currentStats rules unlockedMap =
     map (annotate today)
       (filter (\<lambda>r. spec_newly_unlocked currentStats unlockedMap r \<and> ach_id r \<notin> set objectPrototypeKeys)
          rules)
   \<and> ach_id ` set (checkNewAchievements today currentStats rules unlockedMap) \<inter> dom unlockedMap = {}
   \<and> spec_newly_unlocked ex_stats Map.empty (ex_rule ''constructor'' ''quizzes'' (Some 5) (Some Ativa))
   \<and> checkNewAchievements ''03/11/2026'' ex_stats
         [ex_rule ''constructor'' ''quizzes'' (Some 5) (Some Ativa),
          ex_rule ''q5'' ''quizzes'' (Some 5) (Some Ativa)] Map.empty
       = [annotate ''03/11/2026'' (ex_rule ''q5'' ''quizzes'' (Some 5) (Some Ativa))]"
proof -
  have 1: "checkNewAchievements today currentStats rules unlockedMap =
     map (annotate today)
       (filter (\<lambda>r. spec_newly_unlocked currentStats unlockedMap r \<and> ach_id r \<notin> set objectPrototypeKeys)
          rules)"
    by (rule checkNewAchievements_filter)
  have "ach_id r \<notin> dom unlockedMap"
    if "r \<in> set (checkNewAchievements today currentStats rules unlockedMap)" for r
  proof -
    from that obtain r0 where "r = annotate today r0" "spec_newly_unlocked currentStats unlockedMap r0"
      unfolding checkNewAchievements_filter by auto
    then show ?thesis by (simp add: annotate_id spec_newly_unlocked_def)
  qed
  then have 2: "ach_id ` set (checkNewAchievements today currentStats rules unlockedMap) \<inter> dom unlockedMap = {}"
    by blast
  have 3: "spec_newly_unlocked ex_stats Map.empty (ex_rule ''constructor'' ''quizzes'' (Some 5) (Some Ativa))"
    by (simp add: spec_newly_unlocked_def counter_of_def ex_stats_def ex_rule_def or0_def)
  have 4: "checkNewAchievements ''03/11/2026'' ex_stats
         [ex_rule ''constructor'' ''quizzes'' (Some 5) (Some Ativa),
          ex_rule ''q5'' ''quizzes'' (Some 5) (Some Ativa)] Map.empty
       = [annotate ''03/11/2026'' (ex_rule ''q5'' ''quizzes'' (Some 5) (Some Ativa))]"
    by (simp add: lookupTruthy_def objectPrototypeKeys_def isUnlocked_def ex_stats_def ex_rule_def
        or0_def annotate_def)
  from 1 2 3 4 show ?thesis by blast
qed

theorem checkNewAchievements_skips_inherited_key_witness:
  "map ach_id (checkNewAchievements ''03/11/2026'' ex_stats ex_rules ex_unlocked) = [''q5'', ''m3'']"
proof -
  have "checkNewAchievements ''03/11/2026'' ex_stats ex_rules ex_unlocked =
     map (annotate ''03/11/2026'')
       (filter (\<lambda>r. spec_newly_unlocked ex_stats ex_unlocked r \<and> ach_id r \<notin> set objectPrototypeKeys)
          ex_rules)"
    using checkNewAchievements_skips_inherited_key [of "''03/11/2026''" ex_stats ex_rules ex_unlocked]
    by blast
  then show ?thesis
    by (simp add: ex_rules_newly_unlocked annotate_id ex_rule_def)
qed

text \<open>
  C9, as stated. Two runs on the same statistics, rules and unlocked map differ when the
  clock shows another day: the date of each returned item is read inside the engine.
\<close>

theorem checkNewAchievements_date_counterexample:
  "checkNewAchievements ''03/11/2026'' ex_stats ex_rules ex_unlocked
     \<noteq> checkNewAchievements ''04/11/2026'' ex_stats ex_rules ex_unlocked"
  by (simp add: checkNewAchievements_filter ex_rules_newly_unlocked annotate_def ex_rule_def)

text \<open>
  C9, amended. The output is a function of the three arguments and the current date
  alone: every returned item carries that date, and two runs on the same arguments
  return the same items in the same order with all fields but the date equal.
\<close>

theorem checkNewAchievements_deterministic_up_to_date:
  "map ach_date (checkNewAchievements d1 currentStats rules unlockedMap)
     = replicate (length (checkNewAchievements d1 currentStats rules unlockedMap)) d1
   \<and> map (\<lambda>a. a\<lparr>ach_date := x\<rparr>) (checkNewAchievements d1 currentStats rules unlockedMap)
     = map (\<lambda>a. a\<lparr>ach_date := x\<rparr>) (checkNewAchievements d2 currentStats rules unlockedMap)"
proof
  show "map ach_date (checkNewAchievements d1 currentStats rules unlockedMap)
     = replicate (length (checkNewAchievements d1 currentStats rules unlockedMap)) d1"
    unfolding checkNewAchievements_filter
    by (simp add: annotate_def o_def map_replicate_const)
next
  show "map (\<lambda>a. a\<lparr>ach_date := x\<rparr>) (checkNewAchievements d1 currentStats rules unlockedMap)
     = map (\<lambda>a. a\<lparr>ach_date := x\<rparr>) (checkNewAchievements d2 currentStats rules unlockedMap)"
    unfolding checkNewAchievements_filter by (simp add: annotate_def o_def)
qed

theorem checkNewAchievements_deterministic_witness:
  "map ach_date (checkNewAchievements ''03/11/2026'' ex_stats ex_rules ex_unlocked)
     = [''03/11/2026'', ''03/11/2026'']
   \<and> map (\<lambda>a. a\<lparr>ach_date := []\<rparr>) (checkNewAchievements ''03/11/2026'' ex_stats ex_rules ex_unlocked)
     = map (\<lambda>a. a\<lparr>ach_date := []\<rparr>) (checkNewAchievements ''04/11/2026'' ex_stats ex_rules ex_unlocked)"
  using checkNewAchievements_deterministic_up_to_date
          [of "''03/11/2026''" ex_stats ex_rules ex_unlocked "[]" "''04/11/2026''"]
  by (simp add: checkNewAchievements_filter ex_rules_newly_unlocked)

section \<open>Verification: the notification merge\<close>

lemma insort_cmp_key:
  "insort_cmp (\<lambda>a b. f b - f a) x ys = insort_key (\<lambda>a. - f a) x ys" for f :: "'a \<Rightarrow> int"
  by (induction ys) auto

lemma js_sort_desc_key:
  "js_sort (\<lambda>a b. f b - f a) xs = sort_key (\<lambda>a. - f a) xs" for f :: "'a \<Rightarrow> int"
  by (induction xs) (simp_all add: js_sort_def insort_cmp_key)

lemma sorted_desc_sort_key:
  "sorted_wrt (\<lambda>a b. f a \<ge> f b) (sort_key (\<lambda>a. - f a) xs)" for f :: "'a \<Rightarrow> int"
proof -
  have "sorted (map (\<lambda>a. - f a) (sort_key (\<lambda>a. - f a) xs))" by (rule sorted_sort_key)
  then show ?thesis by (simp add: sorted_map)
qed

lemma notifications_sort_key:
  "notifications A B R = sort_key (\<lambda>n. - n_timestamp n) (map (recomputeRead R) (A @ B))"
  unfolding notifications_def Let_def js_sort_desc_key recomputeRead_def by simp

lemma mset_notifications: "mset (notifications A B R) = mset (map (recomputeRead R) (A @ B))"
  unfolding notifications_sort_key by simp

lemma length_filter_mset:
  "mset xs = mset ys \<Longrightarrow> length (filter P xs) = length (filter P ys)"
  by (metis mset_filter size_mset)

lemma recomputeRead_id: "n_id (recomputeRead R n) = n_id n"
  by (simp add: recomputeRead_def)

lemma mset_ids_notifications: "mset (map n_id (notifications A B R)) = mset (map n_id (A @ B))"
proof -
  have "mset (map n_id (notifications A B R)) = image_mset n_id (mset (notifications A B R))" by simp
  also have "\<dots> = image_mset n_id (mset (map (recomputeRead R) (A @ B)))"
    by (simp only: mset_notifications)
  also have "\<dots> = mset (map n_id (A @ B))"
    by (simp add: image_mset.compositionality o_def recomputeRead_id del: map_append)
  finally show ?thesis .
qed

lemma ex_notifications:
  "notifications ex_private ex_broadcast {''b1''} =
     [ex_note ''p1'' 30 False, ex_note ''b2'' 30 False, ex_note ''b1'' 20 True, ex_note ''p2'' 10 False]"
  by (simp add: notifications_def js_sort_def ex_private_def ex_broadcast_def ex_note_def)

text \<open>
  C6. The derived view is the concatenation of the private and the broadcast list with
  each read flag recomputed as the original flag or a read receipt for the id, sorted by
  timestamp descending (stably: it is the stable sort of that list); and the unread
  count is the number of items of the view whose read flag is false.
\<close>

theorem notifications_view:
  "notifications A B R = sort_key (\<lambda>n. - n_timestamp n) (map (recomputeRead R) (A @ B))
   \<and> sorted_wrt (\<lambda>a b. n_timestamp a \<ge> n_timestamp b) (notifications A B R)
   \<and> mset (notifications A B R) = mset (map (recomputeRead R) (A @ B))
   \<and> unreadNotificationCount A B R = length (filter (\<lambda>n. \<not> n_read n) (notifications A B R))
   \<and> unreadNotificationCount A B R = length (filter (\<lambda>n. \<not> n_read n \<and> n_id n \<notin> R) (A @ B))"
proof -
  have 1: "notifications A B R = sort_key (\<lambda>n. - n_timestamp n) (map (recomputeRead R) (A @ B))"
    by (rule notifications_sort_key)
  have 2: "sorted_wrt (\<lambda>a b. n_timestamp a \<ge> n_timestamp b) (notifications A B R)"
    unfolding 1 by (rule sorted_desc_sort_key)
  have 3: "mset (notifications A B R) = mset (map (recomputeRead R) (A @ B))"
    by (rule mset_notifications)
  have 4: "unreadNotificationCount A B R = length (filter (\<lambda>n. \<not> n_read n) (notifications A B R))"
    by (simp add: unreadNotificationCount_def)
  have "length (filter (\<lambda>n. \<not> n_read n) (notifications A B R))
      = length (filter (\<lambda>n. \<not> n_read n) (map (recomputeRead R) (A @ B)))"
    by (rule length_filter_mset[OF 3])
  also have "\<dots> = length (filter (\<lambda>n. \<not> n_read n \<and> n_id n \<notin> R) (A @ B))"
    by (simp add: filter_map o_def recomputeRead_def)
  finally have 5: "unreadNotificationCount A B R = length (filter (\<lambda>n. \<not> n_read n \<and> n_id n \<notin> R) (A @ B))"
    using 4 by simp
  from 1 2 3 4 5 show ?thesis by blast
qed

theorem notifications_view_witness:
  "map n_id (notifications ex_private ex_broadcast {''b1''}) = [''p1'', ''b2'', ''b1'', ''p2'']
   \<and> map n_read (notifications ex_private ex_broadcast {''b1''}) = [False, False, True, False]
   \<and> unreadNotificationCount ex_private ex_broadcast {''b1''} = 3"
proof -
  have "unreadNotificationCount ex_private ex_broadcast {''b1''}
          = length (filter (\<lambda>n. \<not> n_read n \<and> n_id n \<notin> {''b1''}) (ex_private @ ex_broadcast))"
    using notifications_view [of ex_private ex_broadcast "{''b1''}"] by blast
  then have "unreadNotificationCount ex_private ex_broadcast {''b1''} = 3"
    by (simp add: ex_private_def ex_broadcast_def ex_note_def)
  moreover have "map n_id (notifications ex_private ex_broadcast {''b1''}) = [''p1'', ''b2'', ''b1'', ''p2'']"
    by (simp add: ex_notifications ex_note_def)
  moreover have "map n_read (notifications ex_private ex_broadcast {''b1''}) = [False, False, True, False]"
    by (simp add: ex_notifications ex_note_def)
  ultimately show ?thesis by blast
qed

text \<open>
  C7, as stated. The merge does not deduplicate: a private and a broadcast notification
  with the same id are both in the view.
\<close>

theorem notifications_duplicate_counterexample:
  "\<not> distinct (map n_id (notifications [ex_note ''x'' 2 False] [ex_note ''x'' 1 False] {}))"
  by (simp add: notifications_def js_sort_def ex_note_def)

text \<open>
  C7, amended. The merged view always has as many items as the two lists together; its
  ids are pairwise distinct exactly when each list has distinct ids and the two lists
  share no id.
\<close>

theorem notifications_merge_count:
  "length (notifications A B R) = length A + length B
   \<and> (distinct (map n_id (notifications A B R)) \<longleftrightarrow>
        distinct (map n_id A) \<and> distinct (map n_id B) \<and> set (map n_id A) \<inter> set (map n_id B) = {})"
proof
  have "size (mset (notifications A B R)) = size (mset (map (recomputeRead R) (A @ B)))"
    by (simp only: mset_notifications)
  then show "length (notifications A B R) = length A + length B" by simp
next
  have "distinct (map n_id (notifications A B R)) \<longleftrightarrow> distinct (map n_id (A @ B))"
    using mset_ids_notifications[of A B R] by (metis mset_eq_imp_distinct_iff)
  then show "distinct (map n_id (notifications A B R)) \<longleftrightarrow>
        distinct (map n_id A) \<and> distinct (map n_id B) \<and> set (map n_id A) \<inter> set (map n_id B) = {}"
    by simp
qed

theorem notifications_merge_count_witness:
  "length (notifications ex_private ex_broadcast {''b1''}) = 4
   \<and> distinct (map n_id (notifications ex_private ex_broadcast {''b1''}))"
  using notifications_merge_count [of ex_private ex_broadcast "{''b1''}"]
  by (simp add: ex_private_def ex_broadcast_def ex_note_def)

section \<open>Verification: the grade report\<close>























section \<open>Verification: quiz completion\<close>

lemma quiz_results_bumpAttempts: "quiz_results (bumpAttempts q w) = quiz_results w"
  by (simp add: bumpAttempts_def)

lemma quiz_results_handleQuizComplete:
  assumes "\<not> getResult_fails io" "\<not> setResult_fails io" "\<not> setStats_fails io"
  shows "quiz_results (snd (handleQuizComplete io (Some u) q t s n w)) q =
           Some \<lparr>qr_quizId = q, qr_title = t, lastScore = s, totalQuestions = n,
                 qr_attempts = Some (previousAttempts w q + 1),
                 bestScore = Some (case quiz_results w q of None \<Rightarrow> s
                                   | Some d \<Rightarrow> max (or0 (bestScore d)) s)\<rparr>"
  using assms
  by (auto simp: handleQuizComplete_def Let_def quiz_results_bumpAttempts previousAttempts_def
        increment_def or0_def split: option.splits)

lemma fst_handleQuizComplete:
  assumes "\<not> getResult_fails io" "\<not> setResult_fails io" "\<not> setStats_fails io"
  shows "fst (handleQuizComplete io (Some u) q t s n w) =
           (if previousAttempts w q = 0 then s * 10 else 0)"
  using assms
  by (auto simp: handleQuizComplete_def Let_def previousAttempts_def split: option.splits)

text \<open>
  C4. For a signed-in user and store calls that succeed: a completion with zero
  attempts recorded returns ten times the score and leaves 1 attempt recorded; a
  completion with attempts recorded returns 0, adds one attempt and records as best
  score the maximum of the stored best score and the new score. After any completion
  the attempts recorded are above 0, so every later completion is of the second kind.
\<close>

theorem handleQuizComplete_first_attempt_rule:
  assumes "\<not> getResult_fails io" "\<not> setResult_fails io" "\<not> setStats_fails io"
  shows "(previousAttempts w q = 0 \<longrightarrow>
            fst (handleQuizComplete io (Some u) q t s n w) = s * 10 \<and>
            storedAttempts (snd (handleQuizComplete io (Some u) q t s n w)) q = Some 1)
       \<and> (previousAttempts w q > 0 \<longrightarrow>
            fst (handleQuizComplete io (Some u) q t s n w) = 0 \<and>
            storedAttempts (snd (handleQuizComplete io (Some u) q t s n w)) q
              = Some (previousAttempts w q + 1) \<and>
            storedBestScore (snd (handleQuizComplete io (Some u) q t s n w)) q
              = Some (max (or0 (storedBestScore w q)) s))
       \<and> (previousAttempts w q \<ge> 0 \<longrightarrow>
            previousAttempts (snd (handleQuizComplete io (Some u) q t s n w)) q > 0)"
proof -
  note r = quiz_results_handleQuizComplete[OF assms, of u q t s n w]
  note f = fst_handleQuizComplete[OF assms, of u q t s n w]
  have a: "storedAttempts (snd (handleQuizComplete io (Some u) q t s n w)) q = Some (previousAttempts w q + 1)"
    by (simp add: storedAttempts_def r)
  have nonneg: "previousAttempts w q > 0 \<Longrightarrow> quiz_results w q \<noteq> None"
    by (auto simp: previousAttempts_def split: option.splits)
  have b: "previousAttempts w q > 0 \<Longrightarrow>
      storedBestScore (snd (handleQuizComplete io (Some u) q t s n w)) q = Some (max (or0 (storedBestScore w q)) s)"
    using nonneg by (auto simp: storedBestScore_def r split: option.splits)
  have c: "previousAttempts w q \<ge> 0 \<Longrightarrow>
      previousAttempts (snd (handleQuizComplete io (Some u) q t s n w)) q > 0"
    by (auto simp: previousAttempts_def[of "snd _"] r or0_def)
  show ?thesis using a b f c by auto
qed

theorem handleQuizComplete_first_attempt_rule_witness:
  "fst (handleQuizComplete ex_io (Some ex_student) ''quiz1'' ''Quiz'' 3 5 ex_world) = 30
   \<and> storedAttempts (snd (handleQuizComplete ex_io (Some ex_student) ''quiz1'' ''Quiz'' 3 5 ex_world)) ''quiz1''
       = Some 1
   \<and> fst (handleQuizComplete ex_io (Some ex_student) ''quiz1'' ''Quiz'' 5 5
         (snd (handleQuizComplete ex_io (Some ex_student) ''quiz1'' ''Quiz'' 3 5 ex_world))) = 0
   \<and> storedAttempts (snd (handleQuizComplete ex_io (Some ex_student) ''quiz1'' ''Quiz'' 5 5
         (snd (handleQuizComplete ex_io (Some ex_student) ''quiz1'' ''Quiz'' 3 5 ex_world)))) ''quiz1''
       = Some 2
   \<and> storedBestScore (snd (handleQuizComplete ex_io (Some ex_student) ''quiz1'' ''Quiz'' 5 5
         (snd (handleQuizComplete ex_io (Some ex_student) ''quiz1'' ''Quiz'' 3 5 ex_world)))) ''quiz1''
       = Some 5"
proof -
  define w1 where "w1 = snd (handleQuizComplete ex_io (Some ex_student) ''quiz1'' ''Quiz'' 3 5 ex_world)"
  have io: "\<not> getResult_fails ex_io" "\<not> setResult_fails ex_io" "\<not> setStats_fails ex_io"
    by (simp_all add: ex_io_def)
  have p0: "previousAttempts ex_world ''quiz1'' = 0"
    by (simp add: previousAttempts_def ex_world_def)
  note first = handleQuizComplete_first_attempt_rule
                 [OF io, of ex_world "''quiz1''" ex_student "''Quiz''" 3 5, folded w1_def]
  have f1: "fst (handleQuizComplete ex_io (Some ex_student) ''quiz1'' ''Quiz'' 3 5 ex_world) = 30"
    using first p0 by simp
  have a1: "storedAttempts w1 ''quiz1'' = Some 1" using first p0 by simp
  have p1: "previousAttempts w1 ''quiz1'' = 1"
    using a1 by (auto simp: storedAttempts_def previousAttempts_def or0_def split: option.splits)
  have b1: "storedBestScore w1 ''quiz1'' = Some 3"
    unfolding w1_def storedBestScore_def
    by (simp add: quiz_results_handleQuizComplete[OF io] ex_world_def)
  note second = handleQuizComplete_first_attempt_rule
                  [OF io, of w1 "''quiz1''" ex_student "''Quiz''" 5 5]
  have "fst (handleQuizComplete ex_io (Some ex_student) ''quiz1'' ''Quiz'' 5 5 w1) = 0
      \<and> storedAttempts (snd (handleQuizComplete ex_io (Some ex_student) ''quiz1'' ''Quiz'' 5 5 w1)) ''quiz1'' = Some 2
      \<and> storedBestScore (snd (handleQuizComplete ex_io (Some ex_student) ''quiz1'' ''Quiz'' 5 5 w1)) ''quiz1'' = Some 5"
    using second p1 b1 by (simp add: or0_def)
  with f1 a1 show ?thesis unfolding w1_def by blast
qed

section \<open>Verification: joining a class\<close>

lemma joinTransaction_member:
  assumes "tx_get_fault io = None"
      and "classes store cid = Some current"
      and "studentIds current = Some ids"
      and "user_id u \<in> set ids"
  shows "joinTransaction io u cid tid store = Inl ''User already in class''"
  using assms by (simp add: joinTransaction_def)

lemma joinTransaction_new_member:
  assumes "tx_get_fault io = None" and "tx_commit_fault io = None"
      and "classes store cid = Some current"
      and "studentIds current = Some ids"
      and "user_id u \<notin> set ids"
  shows "\<exists>store' joined.
           joinTransaction io u cid tid store = Inr store'
         \<and> classes store' cid = Some joined
         \<and> studentIds joined = Some (ids @ [user_id u])
         \<and> studentCount joined = Some (or0 (studentCount current) + 1)"
  using assms by (simp add: joinTransaction_def arrayUnion_def increment_def)

text \<open>
  C5. Let the query by code find the class, and let the class document the transaction
  reads have the user among its student ids. Then the handler returns false with the
  already-a-member notice and the store is as before, whatever the (possibly older)
  query snapshot says about membership: either the check before the transaction or the
  check inside it stops the join, and the transaction itself aborts with the domain
  error. The same result holds whenever the query's document lists the user, by its
  student ids or by its legacy students array. An error with any other message is
  reported by the generic notice. When the
  user is not yet a member and nothing fails, the same transaction that checked adds
  the id once and increments the counter by one.
\<close>

theorem handleJoinClass_already_member:
  assumes "query_snapshot io = Inr snapshot"
      and "filter (\<lambda>c. class_code c = code) snapshot = classData # others"
      and "tx_get_fault io = None"
      and "classes store (class_id classData) = Some current"
      and "studentIds current = Some ids"
  shows "(user_id u \<in> set ids \<longrightarrow>
            handleJoinClass io (Some u) code store = (False, store, [(MsgAlreadyInClass, toast_info)])
          \<and> joinTransaction io u (class_id classData) (teacherId classData) store
              = Inl ''User already in class'')
       \<and> (isMember (user_id u) classData \<longrightarrow>
            handleJoinClass io (Some u) code store = (False, store, [(MsgAlreadyInClass, toast_info)]))
       \<and> (\<forall>e. e \<noteq> ''User already in class'' \<longrightarrow> joinCatch e = (MsgJoinError, toast_error))
       \<and> (user_id u \<notin> set ids \<and> tx_commit_fault io = None \<longrightarrow>
            (\<exists>store' joined.
               joinTransaction io u (class_id classData) (teacherId classData) store = Inr store'
             \<and> classes store' (class_id classData) = Some joined
             \<and> studentIds joined = Some (ids @ [user_id u])
             \<and> studentCount joined = Some (or0 (studentCount current) + 1)))"
proof (intro conjI impI allI)
  assume m: "user_id u \<in> set ids"
  have tx: "joinTransaction io u (class_id classData) (teacherId classData) store
              = Inl ''User already in class''"
    using assms(3-5) m by (rule joinTransaction_member)
  then show "joinTransaction io u (class_id classData) (teacherId classData) store
              = Inl ''User already in class''" .
  show "handleJoinClass io (Some u) code store = (False, store, [(MsgAlreadyInClass, toast_info)])"
    using assms(1,2) tx
    by (simp add: handleJoinClass_def Let_def joinCatch_def)
next
  assume "isMember (user_id u) classData"
  then show "handleJoinClass io (Some u) code store = (False, store, [(MsgAlreadyInClass, toast_info)])"
    using assms(1,2) by (simp add: handleJoinClass_def)
next
  fix e :: string
  assume "e \<noteq> ''User already in class''"
  then show "joinCatch e = (MsgJoinError, toast_error)" by (simp add: joinCatch_def)
next
  assume "user_id u \<notin> set ids \<and> tx_commit_fault io = None"
  then show "\<exists>store' joined.
               joinTransaction io u (class_id classData) (teacherId classData) store = Inr store'
             \<and> classes store' (class_id classData) = Some joined
             \<and> studentIds joined = Some (ids @ [user_id u])
             \<and> studentCount joined = Some (or0 (studentCount current) + 1)"
    using joinTransaction_new_member[OF assms(3) _ assms(4,5)] by blast
qed

theorem handleJoinClass_already_member_witness:
  "handleJoinClass ex_join_io (Some ex_student) ''ABC123'' ex_store
     = (False, ex_store, [(MsgAlreadyInClass, toast_info)])
   \<and> joinTransaction ex_join_io ex_student ''c1'' ''t1'' ex_store = Inl ''User already in class''
   \<and> joinCatch ''unavailable'' = (MsgJoinError, toast_error)
   \<and> (\<exists>store' joined.
         joinTransaction ex_join_io ex_newcomer ''c1'' ''t1'' ex_store = Inr store'
       \<and> classes store' ''c1'' = Some joined
       \<and> studentIds joined = Some [''u1'', ''u2'']
       \<and> studentCount joined = Some 2)"
proof -
  have h: "query_snapshot ex_join_io = Inr [ex_class ''c1'' []]"
      "filter (\<lambda>c. class_code c = ''ABC123'') [ex_class ''c1'' []] = ex_class ''c1'' [] # []"
      "tx_get_fault ex_join_io = None"
      "classes ex_store (class_id (ex_class ''c1'' [])) = Some (ex_class ''c1'' [''u1''])"
      "studentIds (ex_class ''c1'' [''u1'']) = Some [''u1'']"
    by (simp_all add: ex_join_io_def ex_store_def ex_class_def)
  have ids: "class_id (ex_class ''c1'' []) = ''c1''" "teacherId (ex_class ''c1'' []) = ''t1''"
    "studentCount (ex_class ''c1'' [''u1'']) = Some 1"
    by (simp_all add: ex_class_def)
  have u: "user_id ex_student \<in> set [''u1'']" "user_id ex_newcomer \<notin> set [''u1'']"
      "user_id ex_newcomer = ''u2''" "tx_commit_fault ex_join_io = None"
    by (simp_all add: ex_student_def ex_newcomer_def ex_join_io_def)
  note member = handleJoinClass_already_member [OF h, of ex_student]
  note newcomer = handleJoinClass_already_member [OF h, of ex_newcomer]
  have 1: "handleJoinClass ex_join_io (Some ex_student) ''ABC123'' ex_store
             = (False, ex_store, [(MsgAlreadyInClass, toast_info)])"
    and 2: "joinTransaction ex_join_io ex_student ''c1'' ''t1'' ex_store = Inl ''User already in class''"
    using member u(1) by (simp_all add: ids)
  have 3: "joinCatch ''unavailable'' = (MsgJoinError, toast_error)"
    using member by simp
  have 4: "\<exists>store' joined.
         joinTransaction ex_join_io ex_newcomer ''c1'' ''t1'' ex_store = Inr store'
       \<and> classes store' ''c1'' = Some joined
       \<and> studentIds joined = Some [''u1'', ''u2'']
       \<and> studentCount joined = Some 2"
    using newcomer u(2,4) by (simp add: ids u(3) or0_def)
  from 1 2 3 4 show ?thesis by blast
qed

section \<open>Verification: bulk reads\<close>

lemma readClasses_cacheFirst: "readClasses forceRefresh getDocs = cacheFirst forceRefresh getDocs"
  by (auto simp: readClasses_def cacheFirst_def cacheMiss_def split: Outcome.splits)

lemma runQuery_cacheFirst: "runQuery forceRefresh getDocs = cacheFirst forceRefresh getDocs"
  by (auto simp: runQuery_def cacheFirst_def cacheMiss_def split: Outcome.splits)

lemma fetchStudentActivities_cacheFirst:
  "fetchStudentActivities client (c # cs) cursor =
     (map (Pair (QActivities (take 10 (c # cs)) cursor))
        (fst (cacheFirst (cursor \<noteq> None) (docsActivities client (take 10 (c # cs)) cursor))),
      pageOf (snd (cacheFirst (cursor \<noteq> None) (docsActivities client (take 10 (c # cs)) cursor))))"
  by (auto simp: fetchStudentActivities_def cacheFirst_def cacheMiss_def pageOf_def
        ACTIVITIES_PER_PAGE_def Let_def split: Outcome.splits option.splits)

lemma fetchStudentActivities_Nil: "fetchStudentActivities client [] cursor = ([], emptyPage)"
  by (simp add: fetchStudentActivities_def)

lemma cacheFirst_True: "cacheFirst True g = ([Network], g Network)"
  by (simp add: cacheFirst_def)

lemma fst_cacheFirst_nonempty: "fst (cacheFirst fr g) \<noteq> []"
  by (simp add: cacheFirst_def)

lemma snd_cacheFirst_empty_cache: "g Cache = Snap [] \<Longrightarrow> snd (cacheFirst fr g) = g Network"
  by (simp add: cacheFirst_def cacheMiss_def)

lemma fetchStudentActivities_calls:
  "(q, s) \<in> set (fst (fetchStudentActivities client ids cursor)) \<Longrightarrow> q = QActivities (take 10 ids) cursor"
  by (cases ids) (auto simp: fetchStudentActivities_Nil fetchStudentActivities_cacheFirst)

lemma refreshContent_cache_calls:
  "(q, Cache) \<in> set (fst (refreshContent client u True myClasses st))
     \<Longrightarrow> q = QActivities (take 10 (map class_id myClasses)) None"
  unfolding refreshContent_def Let_def runQuery_cacheFirst cacheFirst_True
  by (auto simp: split_beta split: option.splits sum.splits dest: fetchStudentActivities_calls)

lemma refreshData_cache_calls:
  "(q, Cache) \<in> set (fst (refreshData client user True st))
     \<Longrightarrow> \<exists>chunk. q = QActivities chunk None"
  unfolding refreshData_def Let_def readClasses_cacheFirst cacheFirst_True
  by (auto simp: split_beta split: option.splits Outcome.splits if_splits dest: refreshContent_cache_calls)

subsection \<open>The reads against the modelled store\<close>

lemma thrown_Snap: "thrown (Snap ds) = None"
  by (simp add: thrown_def)

lemma docsOf_Snap: "docsOf (Snap ds) = ds"
  by (simp add: docsOf_def)

lemma firstRejection_no_error:
  "(\<forall>e\<in>set errors. e = None) \<Longrightarrow> firstRejection settled errors = None"
proof -
  assume all: "\<forall>e\<in>set errors. e = None"
  then have "errors ! i = None" if "i < length errors" for i
    using that by simp
  then have "List.find (\<lambda>i. i < length errors \<and> errors ! i \<noteq> None)
          (settleTimes settled (length errors)) = None"
    by (simp add: find_None_iff)
  then show ?thesis by (simp add: firstRejection_def)
qed

lemma find_first:
  "i \<in> set xs \<Longrightarrow> P i \<Longrightarrow> \<forall>j\<in>set (takeWhile (\<lambda>j. j \<noteq> i) xs). \<not> P j
     \<Longrightarrow> List.find P xs = Some i"
  by (induction xs) auto

lemma first_exists:
  "\<exists>k\<in>set xs. P k \<Longrightarrow> \<exists>i. i \<in> set xs \<and> P i \<and> (\<forall>j\<in>set (takeWhile (\<lambda>j. j \<noteq> i) xs). \<not> P j)"
proof (induction xs)
  case Nil
  then show ?case by simp
next
  case (Cons x xs)
  show ?case
  proof (cases "P x")
    case True
    then have "x \<in> set (x # xs) \<and> P x \<and> (\<forall>j\<in>set (takeWhile (\<lambda>j. j \<noteq> x) (x # xs)). \<not> P j)"
      by simp
    then show ?thesis by blast
  next
    case False
    with Cons.prems have "\<exists>k\<in>set xs. P k" by auto
    from Cons.IH [OF this] obtain i
      where i: "i \<in> set xs" "P i" "\<forall>j\<in>set (takeWhile (\<lambda>j. j \<noteq> i) xs). \<not> P j" by blast
    from i(2) False have "x \<noteq> i" by auto
    with i False have "i \<in> set (x # xs) \<and> P i \<and> (\<forall>j\<in>set (takeWhile (\<lambda>j. j \<noteq> i) (x # xs)). \<not> P j)"
      by simp
    then show ?thesis by blast
  qed
qed

lemma firstRejection_firstInTime:
  assumes "firstInTime (settleTimes settled (length errors)) errors i e"
  shows "firstRejection settled errors = Some e"
proof -
  have "List.find (\<lambda>i. i < length errors \<and> errors ! i \<noteq> None)
          (settleTimes settled (length errors)) = Some i"
    using assms unfolding firstInTime_def by (intro find_first) auto
  then show ?thesis using assms by (simp add: firstRejection_def firstInTime_def)
qed

lemma mem_settleTimes: "i < n \<Longrightarrow> i \<in> set (settleTimes settled n)"
  by (simp add: settleTimes_def)

lemma firstInTime_exists:
  assumes "Some e \<in> set errors"
  shows "\<exists>i e'. firstInTime (settleTimes settled (length errors)) errors i e'"
proof -
  from assms obtain k where k: "k < length errors" "errors ! k = Some e"
    by (auto simp: in_set_conv_nth)
  then have "\<exists>k\<in>set (settleTimes settled (length errors)). k < length errors \<and> errors ! k \<noteq> None"
    using mem_settleTimes [of k "length errors" settled] by auto
  from first_exists [where P = "\<lambda>i. i < length errors \<and> errors ! i \<noteq> None", OF this]
  obtain i where i: "i \<in> set (settleTimes settled (length errors))"
      "i < length errors" "errors ! i \<noteq> None"
      "\<forall>j\<in>set (takeWhile (\<lambda>j. j \<noteq> i) (settleTimes settled (length errors))).
         \<not> (j < length errors \<and> errors ! j \<noteq> None)"
    by blast
  from i(3) obtain e' where "errors ! i = Some e'" by auto
  with i have "firstInTime (settleTimes settled (length errors)) errors i e'"
    unfolding firstInTime_def by auto
  then show ?thesis by blast
qed

lemma thrown_runQuery: "thrown (snd (runQuery fr g)) = readError fr g"
  by (auto simp: runQuery_def readError_def thrown_def cacheMiss_def split: Outcome.splits)

lemma thrown_readClasses: "thrown (snd (readClasses fr g)) = readError fr g"
  by (auto simp: readClasses_def readError_def thrown_def cacheMiss_def split: Outcome.splits)

lemma classIdChunks_unfold:
  "classIdChunks i ids =
     (if i < length ids then take 10 (drop i ids) # classIdChunks (i + 10) ids else [])"
  by (rule classIdChunks.simps)

lemma classIdChunks_Nil: "classIdChunks 0 [] = []"
  by (subst classIdChunks_unfold) simp

lemma chunks_c1: "classIdChunks 0 [''c1''] = [[''c1'']]"
  by (simp add: classIdChunks.simps)

lemma storeClient_simps:
  "docsClasses (storeClient cls mods cached feed) uid Cache = Snap []"
  "docsClasses (storeClient cls mods cached feed) uid Network = Snap (enrolledClasses cls uid)"
  "docsQuizzes (storeClient cls mods cached feed) sf src = Snap []"
  "docsPublicModules (storeClient cls mods cached feed) sf src = Snap []"
  "docsQuizResults (storeClient cls mods cached feed) uid src = Snap []"
  "docsClassModules (storeClient cls mods cached feed) chunk Cache = Snap []"
  "docsClassModules (storeClient cls mods cached feed) chunk Network = Snap (storeClassModules mods chunk)"
  "docsActivities (storeClient cls mods cached feed) chunk cursor Cache = Snap (storeActivities cached chunk cursor)"
  "docsActivities (storeClient cls mods cached feed) chunk cursor Network = Snap (storeActivities feed chunk cursor)"
  "docUserProgress (storeClient cls mods cached feed) uid = Inr Map.empty"
  "settleOrder (storeClient cls mods cached feed) = []"
  by (simp_all add: storeClient_def enrolledClasses_def)

lemma storeActivities_no_cache: "storeActivities [] chunk cursor = []"
  by (cases cursor) (simp_all add: storeActivities_def startAfter_def js_sort_def)

lemma snd_refreshContent_storeClient:
  "snd (refreshContent (storeClient cls mods cached feed) u fr myClasses st) =
     st\<lparr>st_quizzes := [],
        st_modules := map (\<lambda>m. m\<lparr>m_progress := (if m_id m \<in> set objectPrototypeKeys then None else Some 0)\<rparr>)
           (mergeModules [] (map (storeClassModules mods) (classIdChunks 0 (map class_id myClasses)))),
        st_activities := map (enrichActivity myClasses)
           (page_activities (snd (fetchStudentActivities (storeClient cls mods cached feed) (map class_id myClasses) None))),
        lastActivityDoc := lastDoc (snd (fetchStudentActivities (storeClient cls mods cached feed) (map class_id myClasses) None)),
        hasMoreActivities := hasMore (snd (fetchStudentActivities (storeClient cls mods cached feed) (map class_id myClasses) None)),
        isLoading := False\<rparr>"
proof -
  have q: "snd (runQuery fr (docsQuizzes (storeClient cls mods cached feed) sf)) = Snap []"
    "snd (runQuery fr (docsPublicModules (storeClient cls mods cached feed) sf)) = Snap []"
    "snd (runQuery fr (docsQuizResults (storeClient cls mods cached feed) uid)) = Snap []"
    "snd (runQuery fr (docsClassModules (storeClient cls mods cached feed) chunk)) = Snap (storeClassModules mods chunk)"
    for sf uid chunk
    by (simp_all add: runQuery_cacheFirst snd_cacheFirst_empty_cache storeClient_simps)
  have ch: "(if 0 < length (map class_id myClasses) then classIdChunks 0 (map class_id myClasses) else [])
            = classIdChunks 0 (map class_id myClasses)"
    by (cases myClasses) (simp_all add: classIdChunks_Nil)
  show ?thesis
    unfolding refreshContent_def Let_def ch
    by (simp add: split_beta q thrown_Snap docsOf_Snap o_def firstRejection_no_error storeClient_simps
          lookupProperty_def)
qed

lemma snd_refreshData_storeClient:
  assumes "user_role u = Some aluno"
  shows "snd (refreshData (storeClient cls mods cached feed) (Some u) fr st) =
     snd (refreshContent (storeClient cls mods cached feed) u fr (enrolledClasses cls (user_id u))
            (st\<lparr>isLoading := True, studentClasses := enrolledClasses cls (user_id u)\<rparr>))"
proof -
  have "snd (readClasses fr (docsClasses (storeClient cls mods cached feed) (user_id u)))
          = Snap (enrolledClasses cls (user_id u))"
    by (simp add: readClasses_cacheFirst snd_cacheFirst_empty_cache storeClient_simps)
  then show ?thesis
    using assms unfolding refreshData_def Let_def by (simp add: split_beta)
qed

lemma ex_student_facts:
  "user_role ex_student = Some aluno" "user_id ex_student = ''u1''" "seriesFilter ex_student = None"
  by (simp_all add: ex_student_def seriesFilter_def)

lemma ex_enrolled: "enrolledClasses [ex_class ''c1'' [''u1'']] ''u1'' = [ex_class ''c1'' [''u1'']]"
  by (simp add: enrolledClasses_def ex_class_def)

lemma ex_cached_pages:
  "storeActivities ex_stale [''c1''] None = ex_stale"
  "storeActivities ex_fresh [''c1''] None = ex_fresh"
  by (simp_all add: storeActivities_def startAfter_def js_sort_def ACTIVITIES_PER_PAGE_def
        ex_stale_def ex_fresh_def ex_activity_def)

lemma ex_cached_fetch:
  "fetchStudentActivities ex_client_cached [''c1''] None =
      ([(QActivities [''c1''] None, Cache)], pageOf (Snap ex_stale))"
  unfolding fetchStudentActivities_cacheFirst ex_client_cached_def
  by (simp add: cacheFirst_def cacheMiss_def storeClient_simps ex_cached_pages) (simp add: ex_stale_def)

lemma ex_cached_refresh:
  "fst (refreshData ex_client_cached (Some ex_student) True ex_state0) =
     [(QClasses ''u1'', Network), (QQuizzes None, Network), (QPublicModules None, Network),
      (QQuizResults ''u1'', Network), (QClassModules [''c1''], Network),
      (QActivities [''c1''] None, Cache)]
   \<and> map act_id (st_activities (snd (refreshData ex_client_cached (Some ex_student) True ex_state0))) = [''old'']
   \<and> map act_id (docsOf (docsActivities ex_client_cached [''c1''] None Network)) = [''new'', ''old'']"
proof -
  note student = ex_student_facts
  have cid: "map class_id [ex_class ''c1'' [''u1'']] = [''c1'']" by (simp add: ex_class_def)
  note fetch = ex_cached_fetch
  have classes: "readClasses True (docsClasses ex_client_cached ''u1'') = ([Network], Snap [ex_class ''c1'' [''u1'']])"
    unfolding readClasses_cacheFirst cacheFirst_True ex_client_cached_def
    by (simp add: storeClient_simps ex_enrolled)
  have q: "runQuery True g = ([Network], g Network)" for g :: "Source \<Rightarrow> 'd Outcome"
    by (simp add: runQuery_cacheFirst cacheFirst_True)
  have content: "refreshContent ex_client_cached ex_student True [ex_class ''c1'' [''u1'']] st =
      ([(QQuizzes None, Network), (QPublicModules None, Network),
        (QQuizResults ''u1'', Network), (QClassModules [''c1''], Network),
        (QActivities [''c1''] None, Cache)],
       snd (refreshContent ex_client_cached ex_student True [ex_class ''c1'' [''u1'']] st))" for st
    unfolding refreshContent_def Let_def q student cid fetch
    by (simp add: chunks_c1 thrown_def docsOf_def ex_client_cached_def storeClient_simps
        firstRejection_no_error)
  have 1: "fst (refreshData ex_client_cached (Some ex_student) True ex_state0) =
     [(QClasses ''u1'', Network), (QQuizzes None, Network), (QPublicModules None, Network),
      (QQuizResults ''u1'', Network), (QClassModules [''c1''], Network),
      (QActivities [''c1''] None, Cache)]"
    unfolding refreshData_def Let_def
    by (simp add: student classes) (subst content, simp)
  have 2: "map act_id (st_activities (snd (refreshData ex_client_cached (Some ex_student) True ex_state0))) = [''old'']"
    unfolding ex_client_cached_def snd_refreshData_storeClient[OF student(1)] snd_refreshContent_storeClient
    unfolding student ex_enrolled cid fetch[unfolded ex_client_cached_def]
    by (simp add: pageOf_def enrichActivity_def ex_stale_def ex_activity_def ex_class_def)
  have 3: "map act_id (docsOf (docsActivities ex_client_cached [''c1''] None Network)) = [''new'', ''old'']"
    by (simp add: ex_client_cached_def storeClient_simps ex_cached_pages docsOf_def)
       (simp add: ex_fresh_def ex_activity_def)
  from 1 2 3 show ?thesis by blast
qed

lemma chunks_guard':
  "(if 0 < length (map class_id myClasses) then classIdChunks 0 (map class_id myClasses) else [])
     = classIdChunks 0 (map class_id myClasses)"
  by (cases myClasses) (simp_all add: classIdChunks_Nil)

lemma refreshContent_errors:
  "[thrown (snd (runQuery fr (docsQuizzes client (seriesFilter u)))),
    thrown (snd (runQuery fr (docsPublicModules client (seriesFilter u)))),
    thrown (snd (runQuery fr (docsQuizResults client (user_id u))))]
   @ map (\<lambda>(chunk, r). thrown (snd r))
       (map (\<lambda>chunk. (chunk, runQuery fr (docsClassModules client chunk)))
          (classIdChunks 0 (map class_id myClasses)))
   = contentErrors client u fr myClasses"
  by (simp add: contentErrors_def thrown_runQuery o_def)

lemma refreshContent_calls:
  "map (Pair (QQuizzes (seriesFilter u))) (fst (runQuery fr (docsQuizzes client (seriesFilter u))))
   @ map (Pair (QPublicModules (seriesFilter u))) (fst (runQuery fr (docsPublicModules client (seriesFilter u))))
   @ map (Pair (QQuizResults (user_id u))) (fst (runQuery fr (docsQuizResults client (user_id u))))
   @ concat (map (\<lambda>(chunk, r). map (Pair (QClassModules chunk)) (fst r))
       (map (\<lambda>chunk. (chunk, runQuery fr (docsClassModules client chunk)))
          (classIdChunks 0 (map class_id myClasses))))
   = contentCalls client u fr myClasses"
  by (simp add: contentCalls_def runQuery_cacheFirst o_def)

lemma refreshContent_rejected:
  assumes "firstInTime (settleTimes (settleOrder client) (length (contentErrors client u fr myClasses)))
             (contentErrors client u fr myClasses) i e"
  shows "refreshContent client u fr myClasses st = (contentCalls client u fr myClasses, loadError e st)"
  unfolding refreshContent_def Let_def chunks_guard' split_beta refreshContent_errors refreshContent_calls
  using firstRejection_firstInTime [OF assms] by simp

lemma refreshContent_some_rejected:
  assumes "Some e \<in> set (contentErrors client u fr myClasses)"
  shows "\<exists>e'. Some e' \<in> set (contentErrors client u fr myClasses)
            \<and> refreshContent client u fr myClasses st
                = (contentCalls client u fr myClasses, loadError e' st)"
proof -
  from firstInTime_exists [OF assms] obtain i e'
    where f: "firstInTime (settleTimes (settleOrder client) (length (contentErrors client u fr myClasses)))
                (contentErrors client u fr myClasses) i e'"
    by blast
  then have "Some e' \<in> set (contentErrors client u fr myClasses)"
    unfolding firstInTime_def by (metis nth_mem)
  with refreshContent_rejected [OF f] show ?thesis by blast
qed

lemma refreshData_class_list_rejected:
  assumes "user_role u = Some aluno"
      and "readError fr (docsClasses client (user_id u)) = Some e"
  shows "refreshData client (Some u) fr st =
           (map (Pair (QClasses (user_id u))) (fst (cacheFirst fr (docsClasses client (user_id u)))),
            loadError e (st\<lparr>isLoading := True\<rparr>))"
proof -
  have "thrown (snd (readClasses fr (docsClasses client (user_id u)))) = Some e"
    using assms(2) by (simp add: thrown_readClasses)
  then have "snd (readClasses fr (docsClasses client (user_id u))) = Throws e"
    by (simp add: thrown_def split: Outcome.splits)
  then show ?thesis
    using assms(1) unfolding refreshData_def Let_def
    by (simp add: split_beta readClasses_cacheFirst)
qed

lemma refreshData_content_rejected:
  assumes "user_role u = Some aluno"
      and "snd (cacheFirst fr (docsClasses client (user_id u))) = Snap myClasses"
      and "firstInTime (settleTimes (settleOrder client) (length (contentErrors client u fr myClasses)))
             (contentErrors client u fr myClasses) i e"
  shows "refreshData client (Some u) fr st =
           (map (Pair (QClasses (user_id u))) (fst (cacheFirst fr (docsClasses client (user_id u))))
              @ contentCalls client u fr myClasses,
            loadError e (st\<lparr>isLoading := True, studentClasses := myClasses\<rparr>))"
  using assms(1,2) unfolding refreshData_def Let_def
  by (simp add: split_beta readClasses_cacheFirst refreshContent_rejected[OF assms(3)])

lemma cache_error_swallowed:
  "g Cache = Throws e \<Longrightarrow> cacheFirst False g = ([Cache, Network], g Network)"
  by (simp add: cacheFirst_def cacheMiss_def)

text \<open>
  C8, as stated. A forced refresh does not go directly to the network for every read:
  the first page of activities is read from the cache, and when the cache answers, the
  network is not asked. Here the cache holds an old page and the network a newer
  activity; the forced refresh shows the old page.
\<close>

theorem refreshData_force_reads_cache_counterexample:
  "fst (refreshData ex_client_cached (Some ex_student) True ex_state0) =
     [(QClasses ''u1'', Network), (QQuizzes None, Network), (QPublicModules None, Network),
      (QQuizResults ''u1'', Network), (QClassModules [''c1''], Network),
      (QActivities [''c1''] None, Cache)]
   \<and> map act_id (st_activities (snd (refreshData ex_client_cached (Some ex_student) True ex_state0))) = [''old'']
   \<and> map act_id (docsOf (docsActivities ex_client_cached [''c1''] None Network)) = [''new'', ''old'']"
  by (rule ex_cached_refresh)

text \<open>
  C8, amended. The read of the class list and each content query of \<open>refreshData\<close>
  follow the executor: forced, the network alone; otherwise the cache first and the
  network exactly when the cache read returned no document or threw; the outcome is
  that of the last read, so a cache error is swallowed. A network error of the
  class-list read ends \<open>refreshData\<close> in its catch with that error, after the reads of
  the class list alone. When content queries end with a network error, \<open>refreshData\<close>
  ends in its catch after the reads of the content queries, with the error of the one
  that rejects first in time; some such error is reported whenever any content query
  throws. The paginated activities read does not take the flag: without a cursor it
  reads the cache first with the same fallback, with a cursor it reads the network
  alone, and a network error gives the empty page. So in a forced refresh the only
  cache reads are those of the first page of activities.
\<close>

theorem cache_first_reads:
  "readClasses forceRefresh getDocs = cacheFirst forceRefresh getDocs
   \<and> runQuery forceRefresh getDocs' = cacheFirst forceRefresh getDocs'
   \<and> fetchStudentActivities client (c # cs) cursor =
       (map (Pair (QActivities (take 10 (c # cs)) cursor))
          (fst (cacheFirst (cursor \<noteq> None) (docsActivities client (take 10 (c # cs)) cursor))),
        pageOf (snd (cacheFirst (cursor \<noteq> None) (docsActivities client (take 10 (c # cs)) cursor))))
   \<and> (\<forall>q. (q, Cache) \<in> set (fst (refreshData client user True st))
          \<longrightarrow> (\<exists>chunk. q = QActivities chunk None))
   \<and> (\<forall>e. getDocs Cache = Throws e \<longrightarrow> readClasses False getDocs = ([Cache, Network], getDocs Network))
   \<and> (\<forall>e. getDocs' Cache = Throws e \<longrightarrow> runQuery False getDocs' = ([Cache, Network], getDocs' Network))
   \<and> (\<forall>u e. user_role u = Some aluno \<and> readError forceRefresh (docsClasses client (user_id u)) = Some e
          \<longrightarrow> refreshData client (Some u) forceRefresh st =
                (map (Pair (QClasses (user_id u)))
                   (fst (cacheFirst forceRefresh (docsClasses client (user_id u)))),
                 loadError e (st\<lparr>isLoading := True\<rparr>)))
   \<and> (\<forall>u i e. firstInTime
                 (settleTimes (settleOrder client) (length (contentErrors client u forceRefresh myClasses)))
                 (contentErrors client u forceRefresh myClasses) i e
          \<longrightarrow> refreshContent client u forceRefresh myClasses st =
                (contentCalls client u forceRefresh myClasses, loadError e st))
   \<and> (\<forall>u i e. user_role u = Some aluno
            \<and> snd (cacheFirst forceRefresh (docsClasses client (user_id u))) = Snap myClasses
            \<and> firstInTime
                 (settleTimes (settleOrder client) (length (contentErrors client u forceRefresh myClasses)))
                 (contentErrors client u forceRefresh myClasses) i e
          \<longrightarrow> refreshData client (Some u) forceRefresh st =
                (map (Pair (QClasses (user_id u)))
                   (fst (cacheFirst forceRefresh (docsClasses client (user_id u))))
                 @ contentCalls client u forceRefresh myClasses,
                 loadError e (st\<lparr>isLoading := True, studentClasses := myClasses\<rparr>)))
   \<and> (\<forall>u e. Some e \<in> set (contentErrors client u forceRefresh myClasses)
          \<longrightarrow> (\<exists>e'. Some e' \<in> set (contentErrors client u forceRefresh myClasses)
                  \<and> refreshContent client u forceRefresh myClasses st =
                      (contentCalls client u forceRefresh myClasses, loadError e' st)))"
proof -
  have 1: "readClasses forceRefresh getDocs = cacheFirst forceRefresh getDocs"
    by (rule readClasses_cacheFirst)
  have 2: "runQuery forceRefresh getDocs' = cacheFirst forceRefresh getDocs'"
    by (rule runQuery_cacheFirst)
  note 3 = fetchStudentActivities_cacheFirst [of client c cs cursor]
  have 4: "\<forall>q. (q, Cache) \<in> set (fst (refreshData client user True st))
          \<longrightarrow> (\<exists>chunk. q = QActivities chunk None)"
    using refreshData_cache_calls by blast
  have 5: "\<forall>e. getDocs Cache = Throws e \<longrightarrow> readClasses False getDocs = ([Cache, Network], getDocs Network)"
    by (simp add: readClasses_cacheFirst cache_error_swallowed)
  have 6: "\<forall>e. getDocs' Cache = Throws e \<longrightarrow> runQuery False getDocs' = ([Cache, Network], getDocs' Network)"
    by (simp add: runQuery_cacheFirst cache_error_swallowed)
  have 7: "\<forall>u e. user_role u = Some aluno \<and> readError forceRefresh (docsClasses client (user_id u)) = Some e
          \<longrightarrow> refreshData client (Some u) forceRefresh st =
                (map (Pair (QClasses (user_id u)))
                   (fst (cacheFirst forceRefresh (docsClasses client (user_id u)))),
                 loadError e (st\<lparr>isLoading := True\<rparr>))"
    using refreshData_class_list_rejected by blast
  have 8: "\<forall>u i e. firstInTime
                 (settleTimes (settleOrder client) (length (contentErrors client u forceRefresh myClasses)))
                 (contentErrors client u forceRefresh myClasses) i e
          \<longrightarrow> refreshContent client u forceRefresh myClasses st =
                (contentCalls client u forceRefresh myClasses, loadError e st)"
    using refreshContent_rejected by blast
  have 9: "\<forall>u i e. user_role u = Some aluno
            \<and> snd (cacheFirst forceRefresh (docsClasses client (user_id u))) = Snap myClasses
            \<and> firstInTime
                 (settleTimes (settleOrder client) (length (contentErrors client u forceRefresh myClasses)))
                 (contentErrors client u forceRefresh myClasses) i e
          \<longrightarrow> refreshData client (Some u) forceRefresh st =
                (map (Pair (QClasses (user_id u)))
                   (fst (cacheFirst forceRefresh (docsClasses client (user_id u))))
                 @ contentCalls client u forceRefresh myClasses,
                 loadError e (st\<lparr>isLoading := True, studentClasses := myClasses\<rparr>))"
    using refreshData_content_rejected by blast
  have 10: "\<forall>u e. Some e \<in> set (contentErrors client u forceRefresh myClasses)
          \<longrightarrow> (\<exists>e'. Some e' \<in> set (contentErrors client u forceRefresh myClasses)
                  \<and> refreshContent client u forceRefresh myClasses st =
                      (contentCalls client u forceRefresh myClasses, loadError e' st))"
    using refreshContent_some_rejected by blast
  show ?thesis
    by (intro conjI) (rule 1, rule 2, rule 3, rule 4, rule 5, rule 6, rule 7, rule 8, rule 9, rule 10)
qed

lemma ex_failing_errors:
  "contentErrors ex_client_failing ex_student False [ex_class ''c1'' [''u1'']] =
     [Some ''quizzes unavailable'', None, Some ''results unavailable'', None]"
  by (simp add: contentErrors_def readError_def cacheMiss_def ex_client_failing_def
      storeClient_def ex_student_facts ex_class_def chunks_c1)

lemma ex_failing_classes:
  "cacheFirst False (docsClasses ex_client_failing ''u1'')
     = ([Cache, Network], Snap [ex_class ''c1'' [''u1'']])"
  by (simp add: cacheFirst_def cacheMiss_def ex_client_failing_def storeClient_def ex_class_def)

lemma ex_failing_calls:
  "contentCalls ex_client_failing ex_student False [ex_class ''c1'' [''u1'']] =
     [(QQuizzes None, Cache), (QQuizzes None, Network),
      (QPublicModules None, Cache), (QPublicModules None, Network),
      (QQuizResults ''u1'', Cache), (QQuizResults ''u1'', Network),
      (QClassModules [''c1''], Cache), (QClassModules [''c1''], Network)]"
  by (simp add: contentCalls_def cacheFirst_def cacheMiss_def ex_client_failing_def
      storeClient_def ex_student_facts ex_class_def chunks_c1)

theorem cache_first_reads_witness:
  "readClasses False (docsClasses ex_client_cached ''u1'')
     = ([Cache, Network], Snap [ex_class ''c1'' [''u1'']])
   \<and> runQuery False (docsQuizzes ex_client_failing None) = ([Cache, Network], Throws ''quizzes unavailable'')
   \<and> fetchStudentActivities ex_client_cached [''c1''] None
     = ([(QActivities [''c1''] None, Cache)], pageOf (Snap ex_stale))
   \<and> (QActivities [''c1''] None, Cache)
       \<in> set (fst (refreshData ex_client_cached (Some ex_student) True ex_state0))
   \<and> refreshData ex_client_offline (Some ex_student) False ex_state0
     = ([(QClasses ''u1'', Cache), (QClasses ''u1'', Network)],
        loadError ''offline'' (ex_state0\<lparr>isLoading := True\<rparr>))
   \<and> refreshData ex_client_failing (Some ex_student) False ex_state0
     = ([(QClasses ''u1'', Cache), (QClasses ''u1'', Network),
         (QQuizzes None, Cache), (QQuizzes None, Network),
         (QPublicModules None, Cache), (QPublicModules None, Network),
         (QQuizResults ''u1'', Cache), (QQuizResults ''u1'', Network),
         (QClassModules [''c1''], Cache), (QClassModules [''c1''], Network)],
        loadError ''results unavailable''
          (ex_state0\<lparr>isLoading := True, studentClasses := [ex_class ''c1'' [''u1'']]\<rparr>))"
proof -
  note inst = cache_first_reads
      [where forceRefresh = False and getDocs = "docsClasses ex_client_cached ''u1''"
         and getDocs' = "docsQuizzes ex_client_failing None"
         and client = ex_client_cached and c = "''c1''" and cs = "[]" and cursor = None
         and user = "Some ex_student" and st = ex_state0]
  have 1: "readClasses False (docsClasses ex_client_cached ''u1'')
     = ([Cache, Network], Snap [ex_class ''c1'' [''u1'']])"
    using inst
    by (simp add: cacheFirst_def cacheMiss_def ex_client_cached_def storeClient_simps ex_enrolled)
  have cache: "docsQuizzes ex_client_failing None Cache = Throws ''no cache''"
    by (simp add: ex_client_failing_def storeClient_def)
  have "runQuery False (docsQuizzes ex_client_failing None)
          = ([Cache, Network], docsQuizzes ex_client_failing None Network)"
    using inst cache by blast
  then have 2: "runQuery False (docsQuizzes ex_client_failing None)
      = ([Cache, Network], Throws ''quizzes unavailable'')"
    by (simp add: ex_client_failing_def storeClient_def)
  have 3: "fetchStudentActivities ex_client_cached [''c1''] None
     = ([(QActivities [''c1''] None, Cache)], pageOf (Snap ex_stale))"
    by (rule ex_cached_fetch)
  have 4: "(QActivities [''c1''] None, Cache)
       \<in> set (fst (refreshData ex_client_cached (Some ex_student) True ex_state0))"
    using ex_cached_refresh by simp
  note offline = cache_first_reads
      [where forceRefresh = False and client = ex_client_offline and st = ex_state0]
  have off: "readError False (docsClasses ex_client_offline (user_id ex_student)) = Some ''offline''"
      "fst (cacheFirst False (docsClasses ex_client_offline (user_id ex_student))) = [Cache, Network]"
    by (simp_all add: readError_def cacheFirst_def cacheMiss_def ex_client_offline_def storeClient_def)
  have "refreshData ex_client_offline (Some ex_student) False ex_state0 =
          (map (Pair (QClasses (user_id ex_student)))
             (fst (cacheFirst False (docsClasses ex_client_offline (user_id ex_student)))),
           loadError ''offline'' (ex_state0\<lparr>isLoading := True\<rparr>))"
    using offline ex_student_facts(1) off(1) by blast
  then have 5: "refreshData ex_client_offline (Some ex_student) False ex_state0
     = ([(QClasses ''u1'', Cache), (QClasses ''u1'', Network)],
        loadError ''offline'' (ex_state0\<lparr>isLoading := True\<rparr>))"
    unfolding off(2) by (simp add: ex_student_facts)
  note failing = cache_first_reads
      [where forceRefresh = False and client = ex_client_failing and st = ex_state0
         and myClasses = "[ex_class ''c1'' [''u1'']]"]
  have len: "length (contentErrors ex_client_failing ex_student False [ex_class ''c1'' [''u1'']]) = 4"
    by (simp add: ex_failing_errors)
  have order: "settleTimes (settleOrder ex_client_failing) 4 = [2, 0, 1, 3]"
    by (simp add: settleTimes_def ex_client_failing_def storeClient_def upt_rec)
  have first: "firstInTime
                 (settleTimes (settleOrder ex_client_failing)
                    (length (contentErrors ex_client_failing ex_student False [ex_class ''c1'' [''u1'']])))
                 (contentErrors ex_client_failing ex_student False [ex_class ''c1'' [''u1'']])
                 2 ''results unavailable''"
    unfolding len order unfolding ex_failing_errors by (simp add: firstInTime_def)
  have cls: "snd (cacheFirst False (docsClasses ex_client_failing (user_id ex_student)))
              = Snap [ex_class ''c1'' [''u1'']]"
    by (simp add: ex_student_facts ex_failing_classes)
  have "refreshData ex_client_failing (Some ex_student) False ex_state0 =
          (map (Pair (QClasses (user_id ex_student)))
             (fst (cacheFirst False (docsClasses ex_client_failing (user_id ex_student))))
           @ contentCalls ex_client_failing ex_student False [ex_class ''c1'' [''u1'']],
           loadError ''results unavailable''
             (ex_state0\<lparr>isLoading := True, studentClasses := [ex_class ''c1'' [''u1'']]\<rparr>))"
    using failing ex_student_facts(1) cls first by blast
  then have 6: "refreshData ex_client_failing (Some ex_student) False ex_state0
     = ([(QClasses ''u1'', Cache), (QClasses ''u1'', Network),
         (QQuizzes None, Cache), (QQuizzes None, Network),
         (QPublicModules None, Cache), (QPublicModules None, Network),
         (QQuizResults ''u1'', Cache), (QQuizResults ''u1'', Network),
         (QClassModules [''c1''], Cache), (QClassModules [''c1''], Network)],
        loadError ''results unavailable''
          (ex_state0\<lparr>isLoading := True, studentClasses := [ex_class ''c1'' [''u1'']]\<rparr>))"
    unfolding ex_failing_calls by (simp add: ex_student_facts ex_failing_classes)
  from 1 2 3 4 5 6 show ?thesis by blast
qed

section \<open>Verification: chunked class-module reads and the first ten class ids\<close>

lemma concat_classIdChunks: "concat (classIdChunks i ids) = drop i ids"
proof (induction i ids rule: classIdChunks.induct)
  case (1 i ids)
  show ?case
  proof (cases "i < length ids")
    case True
    have "concat (classIdChunks i ids) = take 10 (drop i ids) @ concat (classIdChunks (i + 10) ids)"
      using True by (subst classIdChunks_unfold) simp
    also have "\<dots> = take 10 (drop i ids) @ drop (i + 10) ids"
      using 1 True by simp
    also have "drop (i + 10) ids = drop 10 (drop i ids)"
      by (simp add: add.commute)
    finally show ?thesis by (simp only: append_take_drop_id)
  next
    case False
    then show ?thesis by (subst classIdChunks_unfold) simp
  qed
qed

lemma classIdChunks_sizes:
  "list_all (\<lambda>chunk. 0 < length chunk \<and> length chunk \<le> 10) (classIdChunks i ids)"
proof (induction i ids rule: classIdChunks.induct)
  case (1 i ids)
  show ?case
  proof (cases "i < length ids")
    case True
    then show ?thesis using 1 by (subst classIdChunks_unfold) simp
  next
    case False
    then show ?thesis by (subst classIdChunks_unfold) simp
  qed
qed

subsection \<open>The queries issued\<close>

lemma chunkQueries_append: "chunkQueries (xs @ ys) = chunkQueries xs @ chunkQueries ys"
  by (induction xs rule: chunkQueries.induct) simp_all

lemma chunkQueries_other:
  "chunkQueries (map (Pair (QClasses a)) srcs) = []"
  "chunkQueries (map (Pair (QQuizzes b)) srcs) = []"
  "chunkQueries (map (Pair (QPublicModules b)) srcs) = []"
  "chunkQueries (map (Pair (QQuizResults a)) srcs) = []"
  "chunkQueries (map (Pair (QActivities ids cursor)) srcs) = []"
  by (induction srcs) simp_all

lemma chunkQueries_chunk:
  "chunkQueries (map (Pair (QClassModules chunk)) srcs) = replicate (length srcs) chunk"
  by (induction srcs) simp_all

lemma chunkQueries_fetch: "chunkQueries (fst (fetchStudentActivities client ids cursor)) = []"
  by (cases ids) (simp_all add: fetchStudentActivities_Nil fetchStudentActivities_cacheFirst chunkQueries_other)

lemma chunkQueries_reads:
  "chunkQueries (concat (map (\<lambda>chunk. map (Pair (QClassModules chunk)) (f chunk)) chunks))
     = concat (map (\<lambda>chunk. replicate (length (f chunk)) chunk) chunks)"
  by (induction chunks) (simp_all add: chunkQueries_append chunkQueries_chunk)

lemma chunks_guard:
  "(if 0 < length (map class_id myClasses) then classIdChunks 0 (map class_id myClasses) else [])
     = classIdChunks 0 (map class_id myClasses)"
  by (cases myClasses) (simp_all add: classIdChunks_Nil)

lemma chunkQueries_refreshContent:
  "chunkQueries (fst (refreshContent client u fr myClasses st)) =
     concat (map (\<lambda>chunk. replicate (length (fst (cacheFirst fr (docsClassModules client chunk)))) chunk)
       (classIdChunks 0 (map class_id myClasses)))"
  unfolding refreshContent_def Let_def chunks_guard runQuery_cacheFirst
  by (simp add: split_beta chunkQueries_append chunkQueries_other chunkQueries_fetch o_def
        chunkQueries_reads split: option.splits sum.splits)

lemma chunkQueries_refreshContent_forced:
  "chunkQueries (fst (refreshContent client u True myClasses st)) = classIdChunks 0 (map class_id myClasses)"
proof -
  have "concat (map (\<lambda>chunk. [chunk]) chunks) = chunks" for chunks :: "string list list"
    by (induction chunks) simp_all
  then show ?thesis
    unfolding chunkQueries_refreshContent cacheFirst_True by simp
qed

lemma set_chunkQueries_refreshContent:
  "set (chunkQueries (fst (refreshContent client u fr myClasses st))) = set (classIdChunks 0 (map class_id myClasses))"
proof -
  have "set (concat (map (\<lambda>chunk. replicate (length (f chunk)) chunk) chunks)) = set chunks"
    if "\<And>chunk. f chunk \<noteq> []" for f :: "string list \<Rightarrow> Source list" and chunks
    using that by (induction chunks) auto
  from this[of "\<lambda>chunk. fst (cacheFirst fr (docsClassModules client chunk))"] fst_cacheFirst_nonempty
  show ?thesis unfolding chunkQueries_refreshContent by blast
qed

subsection \<open>The module merge\<close>

lemma keys_mapSet_list:
  "map fst (mapSet k v m) = (if k \<in> fst ` set m then map fst m else map fst m @ [k])"
  by (induction m) force+

lemma keys_mapSet: "fst ` set (mapSet k v m) = insert k (fst ` set m)"
proof -
  have "fst ` set (mapSet k v m) = set (map fst (mapSet k v m))" by simp
  also have "\<dots> = insert k (fst ` set m)"
    unfolding keys_mapSet_list by auto
  finally show ?thesis .
qed

lemma mapHas_keys: "mapHas k m \<longleftrightarrow> k \<in> fst ` set m"
  by (induction m) (auto simp: mapHas_def)

lemma keyed_mapSet: "keyed m \<Longrightarrow> keyed (mapSet (m_id d) d m)"
  by (induction m) (auto simp: keyed_def)

lemma keyed_ids_list: "keyed m \<Longrightarrow> map m_id (map snd m) = map fst m"
  by (induction m) (auto simp: keyed_def)

lemma keyed_ids: "keyed m \<Longrightarrow> m_id ` snd ` set m = fst ` set m"
proof -
  assume "keyed m"
  then have "set (map m_id (map snd m)) = set (map fst m)" by (simp only: keyed_ids_list)
  then show ?thesis by (simp add: image_image)
qed

lemma addNew_props:
  "keyed m \<Longrightarrow> keyed (addNew m d) \<and> fst ` set (addNew m d) = insert (m_id d) (fst ` set m)"
  unfolding addNew_def by (simp add: keyed_mapSet keys_mapSet mapHas_keys insert_absorb)

lemma fold_public:
  "keyed m \<Longrightarrow>
   keyed (foldl (\<lambda>m d. mapSet (m_id d) d m) m docs) \<and>
   fst ` set (foldl (\<lambda>m d. mapSet (m_id d) d m) m docs) = fst ` set m \<union> m_id ` set docs"
proof (induction docs arbitrary: m)
  case Nil
  then show ?case by simp
next
  case (Cons d docs)
  from Cons.IH[OF keyed_mapSet[OF Cons.prems, of d]]
  show ?case by (simp add: keys_mapSet)
qed

lemma fold_chunk:
  "keyed m \<Longrightarrow>
   keyed (foldl addNew m docs) \<and>
   fst ` set (foldl addNew m docs) = fst ` set m \<union> m_id ` set docs"
proof (induction docs arbitrary: m)
  case Nil
  then show ?case by simp
next
  case (Cons d docs)
  from addNew_props[OF Cons.prems, of d] Cons.IH[of "addNew m d"]
  show ?case by simp
qed

lemma fold_chunks:
  "keyed m \<Longrightarrow>
   keyed (foldl (foldl addNew) m results) \<and>
   fst ` set (foldl (foldl addNew) m results) = fst ` set m \<union> m_id ` set (concat results)"
proof (induction results arbitrary: m)
  case Nil
  then show ?case by simp
next
  case (Cons r results)
  from fold_chunk[OF Cons.prems, of r] Cons.IH[of "foldl addNew m r"]
  show ?case by (simp add: Un_assoc image_Un)
qed

lemma mergeModules_addNew:
  "mergeModules publicModules classResults =
     map snd (foldl (foldl addNew) (foldl (\<lambda>m d. mapSet (m_id d) d m) [] publicModules) classResults)"
proof -
  have "(\<lambda>m d. if mapHas (m_id d) m then m else mapSet (m_id d) d m) = addNew"
    by (intro ext) (simp add: addNew_def)
  then show ?thesis by (simp add: mergeModules_def Let_def)
qed

lemma ids_mergeModules:
  "m_id ` set (mergeModules publicModules classResults)
     = m_id ` set publicModules \<union> m_id ` set (concat classResults)"
proof -
  have k0: "keyed []" by (simp add: keyed_def)
  from fold_public[OF k0, of publicModules]
  have k1: "keyed (foldl (\<lambda>m d. mapSet (m_id d) d m) [] publicModules)"
    and s1: "fst ` set (foldl (\<lambda>m d. mapSet (m_id d) d m) [] publicModules) = m_id ` set publicModules"
    by simp_all
  from fold_chunks[OF k1, of classResults]
  have k2: "keyed (foldl (foldl addNew) (foldl (\<lambda>m d. mapSet (m_id d) d m) [] publicModules) classResults)"
    and s2: "fst ` set (foldl (foldl addNew) (foldl (\<lambda>m d. mapSet (m_id d) d m) [] publicModules) classResults)
             = m_id ` set publicModules \<union> m_id ` set (concat classResults)"
    by (simp_all add: s1)
  show ?thesis
    unfolding mergeModules_addNew using keyed_ids[OF k2] s2 by simp
qed

lemma in_storeClassModules:
  "m \<in> set (storeClassModules mods chunk) \<longleftrightarrow>
     m \<in> set mods \<and> m_status m = Some ''Ativo'' \<and>
     (\<exists>cs c. m_classIds m = Some cs \<and> c \<in> set cs \<and> c \<in> set chunk)"
  by (auto simp: storeClassModules_def list_ex_iff split: option.splits)

lemma storeClassModules_concat:
  "set (concat (map (storeClassModules mods) chunks)) = set (storeClassModules mods (concat chunks))"
proof -
  have "m \<in> set (concat (map (storeClassModules mods) chunks))
          \<longleftrightarrow> m \<in> set (storeClassModules mods (concat chunks))" for m
    unfolding in_storeClassModules set_concat set_map by (simp add: in_storeClassModules) blast
  then show ?thesis by blast
qed

lemma modules_refreshData_storeClient:
  assumes "user_role u = Some aluno"
  shows "m_id ` set (st_modules (snd (refreshData (storeClient cls mods cached feed) (Some u) fr st)))
       = m_id ` set (storeClassModules mods (map class_id (enrolledClasses cls (user_id u))))"
proof -
  have "m_id ` set (st_modules (snd (refreshData (storeClient cls mods cached feed) (Some u) fr st)))
      = m_id ` set (mergeModules [] (map (storeClassModules mods)
            (classIdChunks 0 (map class_id (enrolledClasses cls (user_id u))))))"
    unfolding snd_refreshData_storeClient[OF assms] snd_refreshContent_storeClient
    by (simp add: image_image)
  also have "\<dots> = m_id ` set (concat (map (storeClassModules mods)
            (classIdChunks 0 (map class_id (enrolledClasses cls (user_id u))))))"
    by (simp add: ids_mergeModules)
  also have "\<dots> = m_id ` set (storeClassModules mods (map class_id (enrolledClasses cls (user_id u))))"
    unfolding storeClassModules_concat concat_classIdChunks by simp
  finally show ?thesis .
qed

subsection \<open>Eleven classes\<close>

lemma ex_enrolled11:
  "enrolledClasses (map (\<lambda>c. ex_class c [''u1'']) ex_ids11) ''u1'' = map (\<lambda>c. ex_class c [''u1'']) ex_ids11"
  by (simp add: enrolledClasses_def ex_class_def)

lemma ex_ids_of_classes11: "map class_id (map (\<lambda>c. ex_class c [''u1'']) ex_ids11) = ex_ids11"
  by (simp add: ex_class_def o_def)

lemma ex_fetch11:
  "fetchStudentActivities ex_client_11classes ex_ids11 None =
     ([(QActivities [''c01'', ''c02'', ''c03'', ''c04'', ''c05'', ''c06'', ''c07'', ''c08'', ''c09'', ''c10''] None, Cache),
       (QActivities [''c01'', ''c02'', ''c03'', ''c04'', ''c05'', ''c06'', ''c07'', ''c08'', ''c09'', ''c10''] None, Network)],
      emptyPage)"
proof -
  have net: "storeActivities ex_feed_c11 (take 10 ex_ids11) None = []"
    by (simp add: storeActivities_def startAfter_def js_sort_def ex_feed_c11_def ex_activity_def ex_ids11_def)
  have "fetchStudentActivities ex_client_11classes ex_ids11 None =
       ([(QActivities (take 10 ex_ids11) None, Cache), (QActivities (take 10 ex_ids11) None, Network)], emptyPage)"
    unfolding ex_client_11classes_def
    by (simp add: fetchStudentActivities_def Let_def storeClient_simps storeActivities_no_cache net
        ACTIVITIES_PER_PAGE_def emptyPage_def) (simp add: ex_ids11_def)
  then show ?thesis by (simp add: ex_ids11_def)
qed

text \<open>
  C2, as stated. The paginated activities fetch is not chunked. For a student of eleven
  classes it issues the one query over the first ten class ids, and the visible activity
  of the eleventh class, which the store holds, is not in the page: the feed stays empty.
\<close>

theorem fetchStudentActivities_first_ten_counterexample:
  "map class_id (studentClasses (snd (refreshData ex_client_11classes (Some ex_student) True ex_state0))) = ex_ids11
   \<and> map act_id (docsOf (docsActivities ex_client_11classes [''c11''] None Network)) = [''x'']
   \<and> fetchStudentActivities ex_client_11classes ex_ids11 None =
       ([(QActivities [''c01'', ''c02'', ''c03'', ''c04'', ''c05'', ''c06'', ''c07'', ''c08'', ''c09'', ''c10''] None, Cache),
         (QActivities [''c01'', ''c02'', ''c03'', ''c04'', ''c05'', ''c06'', ''c07'', ''c08'', ''c09'', ''c10''] None, Network)],
        emptyPage)
   \<and> st_activities (snd (refreshData ex_client_11classes (Some ex_student) True ex_state0)) = []"
proof -
  note student = ex_student_facts
  have 1: "map class_id (studentClasses (snd (refreshData ex_client_11classes (Some ex_student) True ex_state0))) = ex_ids11"
    unfolding ex_client_11classes_def snd_refreshData_storeClient[OF student(1)] snd_refreshContent_storeClient
    by (simp add: student ex_enrolled11) (simp add: ex_class_def o_def)
  have 2: "map act_id (docsOf (docsActivities ex_client_11classes [''c11''] None Network)) = [''x'']"
    by (simp add: ex_client_11classes_def storeClient_simps docsOf_def storeActivities_def startAfter_def
        js_sort_def ACTIVITIES_PER_PAGE_def ex_feed_c11_def ex_activity_def)
  have 4: "st_activities (snd (refreshData ex_client_11classes (Some ex_student) True ex_state0)) = []"
    unfolding ex_client_11classes_def snd_refreshData_storeClient[OF student(1)] snd_refreshContent_storeClient
    unfolding student ex_enrolled11 ex_ids_of_classes11 ex_fetch11[unfolded ex_client_11classes_def]
    by (simp add: emptyPage_def)
  from 1 2 ex_fetch11 4 show ?thesis by blast
qed

text \<open>
  C2, amended. The class-module fetch of \<open>refreshData\<close> is chunked: the class ids are
  cut into consecutive chunks that concatenate to the whole list, each non-empty and of
  at most 10 ids; one class-module query is built per chunk (a forced refresh reads each
  once, in chunk order); the module list holds the ids of the public modules and of all
  chunk results; and against the store the modules loaded are those of one query over
  all class ids of the student. The paginated activities fetch is not chunked: every
  read it makes is of the one query over the first 10 class ids.
\<close>

theorem class_modules_chunked_activities_first_ten:
  "concat (classIdChunks 0 ids) = ids
   \<and> list_all (\<lambda>chunk. 0 < length chunk \<and> length chunk \<le> 10) (classIdChunks 0 ids)
   \<and> chunkQueries (fst (refreshContent client u True myClasses st)) = classIdChunks 0 (map class_id myClasses)
   \<and> set (chunkQueries (fst (refreshContent client u forceRefresh myClasses st)))
       = set (classIdChunks 0 (map class_id myClasses))
   \<and> m_id ` set (mergeModules publicModules classResults)
       = m_id ` set publicModules \<union> m_id ` set (concat classResults)
   \<and> (user_role u = Some aluno \<longrightarrow>
        m_id ` set (st_modules (snd (refreshData (storeClient cls mods cached feed) (Some u) forceRefresh st)))
          = m_id ` set (storeClassModules mods (map class_id (enrolledClasses cls (user_id u)))))
   \<and> (\<forall>q s. (q, s) \<in> set (fst (fetchStudentActivities client ids cursor))
          \<longrightarrow> q = QActivities (take 10 ids) cursor)"
  using concat_classIdChunks [of 0 ids] classIdChunks_sizes [of 0 ids]
        chunkQueries_refreshContent_forced [of client u myClasses st]
        set_chunkQueries_refreshContent [of client u forceRefresh myClasses st]
        ids_mergeModules [of publicModules classResults]
        modules_refreshData_storeClient [of u cls mods cached feed forceRefresh st]
        fetchStudentActivities_calls [of _ _ client ids cursor]
  by (simp only: drop_0) blast

theorem class_modules_chunked_witness:
  "classIdChunks 0 ex_ids11 =
     [[''c01'', ''c02'', ''c03'', ''c04'', ''c05'', ''c06'', ''c07'', ''c08'', ''c09'', ''c10''], [''c11'']]
   \<and> concat (classIdChunks 0 ex_ids11) = ex_ids11
   \<and> m_id ` set (st_modules (snd (refreshData ex_client_11classes (Some ex_student) False ex_state0)))
       = {''mA'', ''mB''}
   \<and> map fst (fst (fetchStudentActivities ex_client_11classes ex_ids11 None))
       = [QActivities (take 10 ex_ids11) None, QActivities (take 10 ex_ids11) None]"
proof -
  note inst = class_modules_chunked_activities_first_ten
      [where ids = ex_ids11 and u = ex_student and cls = "map (\<lambda>c. ex_class c [''u1'']) ex_ids11"
         and mods = ex_modules and cached = "[]" and feed = ex_feed_c11 and forceRefresh = False
         and st = ex_state0 and client = ex_client_11classes and cursor = None,
       folded ex_client_11classes_def]
  have 1: "classIdChunks 0 ex_ids11 =
     [[''c01'', ''c02'', ''c03'', ''c04'', ''c05'', ''c06'', ''c07'', ''c08'', ''c09'', ''c10''], [''c11'']]"
    by (simp add: classIdChunks.simps ex_ids11_def)
  have 2: "concat (classIdChunks 0 ex_ids11) = ex_ids11"
    using inst by blast
  have all: "storeClassModules ex_modules ex_ids11 = ex_modules"
    by (simp add: storeClassModules_def ex_modules_def ex_ids11_def)
  have "m_id ` set (st_modules (snd (refreshData ex_client_11classes (Some ex_student) False ex_state0)))
      = m_id ` set (storeClassModules ex_modules
          (map class_id (enrolledClasses (map (\<lambda>c. ex_class c [''u1'']) ex_ids11) (user_id ex_student))))"
    using inst ex_student_facts(1) by blast
  then have 3: "m_id ` set (st_modules (snd (refreshData ex_client_11classes (Some ex_student) False ex_state0)))
       = {''mA'', ''mB''}"
    unfolding ex_student_facts ex_enrolled11 ex_ids_of_classes11 all
    by (simp add: ex_modules_def)
  have 4: "map fst (fst (fetchStudentActivities ex_client_11classes ex_ids11 None))
       = [QActivities (take 10 ex_ids11) None, QActivities (take 10 ex_ids11) None]"
    unfolding ex_fetch11 by (simp add: ex_ids11_def)
  from 1 2 3 4 show ?thesis by blast
qed

section \<open>Verification: loading more activities\<close>

lemma loadMoreActivities_keeps:
  "st_activities (snd (loadMoreActivities client st)) = st_activities st"
  by (simp add: loadMoreActivities_def Let_def split_beta)

lemma ex_feed11_pages:
  "storeActivities ex_feed11 [''c1''] None = take 10 ex_feed11"
  "storeActivities ex_feed11 [''c1''] (Some (ex_activity ''a02'' ''c1'' 2 None [])) = [ex_activity ''a01'' ''c1'' 1 None []]"
  "storeActivities ex_feed11 [''c1''] (Some (ex_activity ''a01'' ''c1'' 1 None [])) = []"
  by (simp_all add: storeActivities_def startAfter_def js_sort_def ACTIVITIES_PER_PAGE_def
        ex_feed11_def ex_activity_def)

lemma pages11:
  "fetchStudentActivities ex_client11 [''c1''] None =
     ([(QActivities [''c1''] None, Cache), (QActivities [''c1''] None, Network)],
      pageOf (Snap (take 10 ex_feed11)))"
  "fetchStudentActivities ex_client11 [''c1''] (Some (ex_activity ''a02'' ''c1'' 2 None [])) =
     ([(QActivities [''c1''] (Some (ex_activity ''a02'' ''c1'' 2 None [])), Network)],
      pageOf (Snap [ex_activity ''a01'' ''c1'' 1 None []]))"
  "fetchStudentActivities ex_client11 [''c1''] (Some (ex_activity ''a01'' ''c1'' 1 None [])) =
     ([(QActivities [''c1''] (Some (ex_activity ''a01'' ''c1'' 1 None [])), Network)],
      pageOf (Snap []))"
  unfolding fetchStudentActivities_cacheFirst ex_client11_def
  by (simp_all add: cacheFirst_def cacheMiss_def storeClient_simps storeActivities_no_cache ex_feed11_pages)

lemma first_page11:
  "snd (refreshData ex_client11 (Some ex_student) False ex_state0) =
     ex_state0\<lparr>isLoading := False, studentClasses := [ex_class ''c1'' [''u1'']],
       st_activities := map (enrichActivity [ex_class ''c1'' [''u1'']]) (take 10 ex_feed11),
       lastActivityDoc := Some (ex_activity ''a02'' ''c1'' 2 None []),
       hasMoreActivities := True\<rparr>"
proof -
  have cid: "map class_id [ex_class ''c1'' [''u1'']] = [''c1'']" by (simp add: ex_class_def)
  show ?thesis
    unfolding ex_client11_def snd_refreshData_storeClient[OF ex_student_facts(1)] snd_refreshContent_storeClient
    unfolding ex_student_facts ex_enrolled cid pages11[unfolded ex_client11_def] chunks_c1
    by (simp add: pageOf_def ex_state0_def mergeModules_def storeClassModules_def)
       (simp add: ex_feed11_def)
qed

text \<open>
  C1, on the code. \<open>loadMoreActivities\<close> filters the fetched page against the ids of
  that same page, so it appends nothing: the activity list is the same after every call.
  On a feed of eleven activities the first page holds ten; the next page is fetched and
  holds the eleventh, the cursor and the has-more flag are updated, and the list still
  holds the ten; the call after that clears the cursor, and the eleventh activity never
  reaches the list.
\<close>

theorem loadMoreActivities_drops_page:
  "st_activities (snd (loadMoreActivities client st)) = st_activities st
   \<and> map act_id (st_activities (snd (refreshData ex_client11 (Some ex_student) False ex_state0)))
       = [''a11'', ''a10'', ''a09'', ''a08'', ''a07'', ''a06'', ''a05'', ''a04'', ''a03'', ''a02'']
   \<and> hasMoreActivities (snd (refreshData ex_client11 (Some ex_student) False ex_state0))
   \<and> map act_id (page_activities (snd (fetchStudentActivities ex_client11 [''c1'']
         (lastActivityDoc (snd (refreshData ex_client11 (Some ex_student) False ex_state0))))))
       = [''a01'']
   \<and> map act_id (st_activities (snd (loadMoreActivities ex_client11
         (snd (refreshData ex_client11 (Some ex_student) False ex_state0)))))
       = [''a11'', ''a10'', ''a09'', ''a08'', ''a07'', ''a06'', ''a05'', ''a04'', ''a03'', ''a02'']
   \<and> \<not> hasMoreActivities (snd (loadMoreActivities ex_client11
         (snd (refreshData ex_client11 (Some ex_student) False ex_state0))))
   \<and> lastActivityDoc (snd (loadMoreActivities ex_client11 (snd (loadMoreActivities ex_client11
         (snd (refreshData ex_client11 (Some ex_student) False ex_state0)))))) = None"
proof -
  define st1 where "st1 = snd (refreshData ex_client11 (Some ex_student) False ex_state0)"
  define st2 where "st2 = snd (loadMoreActivities ex_client11 st1)"
  have cid': "class_id (ex_class ''c1'' [''u1'']) = ''c1''" by (simp add: ex_class_def)
  have f1: "studentClasses st1 = [ex_class ''c1'' [''u1'']]"
      "lastActivityDoc st1 = Some (ex_activity ''a02'' ''c1'' 2 None [])"
      "hasMoreActivities st1" "\<not> isLoadingMoreActivities st1"
    unfolding st1_def first_page11 by (simp_all add: ex_state0_def)
  have a1: "map act_id (st_activities st1)
       = [''a11'', ''a10'', ''a09'', ''a08'', ''a07'', ''a06'', ''a05'', ''a04'', ''a03'', ''a02'']"
    unfolding st1_def first_page11
    by (simp add: ex_feed11_def enrichActivity_def ex_activity_def ex_class_def)
  have p2: "map act_id (page_activities (snd (fetchStudentActivities ex_client11 [''c1''] (lastActivityDoc st1))))
       = [''a01'']"
    unfolding f1 pages11 by (simp add: pageOf_def ex_activity_def)
  have f2: "studentClasses st2 = [ex_class ''c1'' [''u1'']]"
      "lastActivityDoc st2 = Some (ex_activity ''a01'' ''c1'' 1 None [])"
      "\<not> hasMoreActivities st2" "\<not> isLoadingMoreActivities st2"
    unfolding st2_def loadMoreActivities_def Let_def
    by (simp_all add: f1 cid' pages11 split_beta pageOf_def)
  have l3: "lastActivityDoc (snd (loadMoreActivities ex_client11 st2)) = None"
    unfolding loadMoreActivities_def Let_def
    by (simp add: f2 cid' pages11 split_beta pageOf_def)
  have a2: "map act_id (st_activities st2)
       = [''a11'', ''a10'', ''a09'', ''a08'', ''a07'', ''a06'', ''a05'', ''a04'', ''a03'', ''a02'']"
    unfolding st2_def loadMoreActivities_keeps by (rule a1)
  from loadMoreActivities_keeps[of client st] a1 f1(3) p2 a2 f2(3) l3
  show ?thesis unfolding st2_def st1_def by blast
qed

end
